theory Spec2Isabelle
  imports Complex_Main "HOL-Library.AList" "HOL-Library.Sublist" "HOL-Library.Char_ord"
    "HOL-Library.List_Lexorder" "HOL-Library.Multiset"
begin

section \<open>Values, exceptions and the built-in operations the code relies on\<close>

text \<open>
  The configuration module keeps every document as the value \<^verbatim>\<open>json.load\<close> returns: nested
  dictionaries, lists, strings, numbers, booleans and \<^verbatim>\<open>None\<close>. A Python dictionary keeps
  its keys in insertion order and the resolvers depend on that order, so a dictionary is an
  association list; a parsed document has pairwise distinct keys. A string is the list of
  the UTF-8 bytes of the Python string: equality, containment, prefixes and the order of two
  strings are the same on the bytes as on the characters. A number is the value of the
  Python integer or float (the literals \<^verbatim>\<open>NaN\<close> and \<^verbatim>\<open>Infinity\<close>, which
  \<^verbatim>\<open>json.load\<close> accepts although they are not JSON, have no value here). Comparing two
  numbers is exact in Python; adding two floats rounds, so where the code adds, the addition
  is a parameter of the function.
\<close>

datatype json =
    JNull
  | JBool bool
  | JNum real
  | JStr string
  | JArr "json list"
  | JObj "(string \<times> json) list"

type_synonym pydict = "(string \<times> json) list"

text \<open>
  The exceptions that can leave a function of the module. \<open>IOError\<close> is Python 3's
  \<^verbatim>\<open>OSError\<close>. \<open>UnicodeDecodeError\<close> is raised when a file opened with
  \<^verbatim>\<open>encoding="utf-8"\<close> holds bytes that are not UTF-8; it is a \<^verbatim>\<open>ValueError\<close>, and
  neither a \<open>JSONDecodeError\<close> nor an \<open>IOError\<close>. The last three arise when a
  document does not have the shape the code expects.
\<close>

datatype exn =
  IOError | JSONDecodeError | UnicodeDecodeError | KeyError | TypeError | AttributeError

definition bind_exn :: "exn + 'a \<Rightarrow> ('a \<Rightarrow> exn + 'b) \<Rightarrow> exn + 'b" where
  "bind_exn m f = (case m of Inl e \<Rightarrow> Inl e | Inr v \<Rightarrow> f v)"

text \<open>\<^verbatim>\<open>except (json.JSONDecodeError, IOError)\<close>: the two exceptions every loader catches.\<close>

definition caught :: "exn \<Rightarrow> bool" where
  "caught e = (e = JSONDecodeError \<or> e = IOError)"

text \<open>Truthiness of a value, as \<^verbatim>\<open>if x\<close>, \<^verbatim>\<open>not x\<close> and \<^verbatim>\<open>x or y\<close> test it.\<close>

fun truthy :: "json \<Rightarrow> bool" where
  "truthy JNull = False"
| "truthy (JBool b) = b"
| "truthy (JNum r) = (r \<noteq> 0)"
| "truthy (JStr s) = (s \<noteq> [])"
| "truthy (JArr xs) = (xs \<noteq> [])"
| "truthy (JObj kvs) = (kvs \<noteq> [])"

text \<open>\<^verbatim>\<open>d.get(k, default)\<close>: only a dictionary has the method.\<close>

fun py_get :: "json \<Rightarrow> string \<Rightarrow> json \<Rightarrow> exn + json" where
  "py_get (JObj kvs) k d = Inr (case map_of kvs k of None \<Rightarrow> d | Some v \<Rightarrow> v)"
| "py_get _ k d = Inl AttributeError"

text \<open>\<^verbatim>\<open>d[k]\<close> with a string subscript: a missing key raises, and so does every other type.\<close>

fun py_getitem :: "json \<Rightarrow> string \<Rightarrow> exn + json" where
  "py_getitem (JObj kvs) k = (case map_of kvs k of None \<Rightarrow> Inl KeyError | Some v \<Rightarrow> Inr v)"
| "py_getitem _ k = Inl TypeError"

text \<open>\<^verbatim>\<open>d.items()\<close>, in insertion order.\<close>

fun py_items :: "json \<Rightarrow> exn + pydict" where
  "py_items (JObj kvs) = Inr kvs"
| "py_items _ = Inl AttributeError"

text \<open>
  \<^verbatim>\<open>for p in x\<close>: a list yields its elements, a dictionary its keys, a string its
  characters; nothing else is iterable.
\<close>

fun py_iter :: "json \<Rightarrow> exn + json list" where
  "py_iter (JArr xs) = Inr xs"
| "py_iter (JObj kvs) = Inr (map (\<lambda>kv. JStr (fst kv)) kvs)"
| "py_iter (JStr s) = Inr (map (\<lambda>c. JStr [c]) s)"
| "py_iter _ = Inl TypeError"

text \<open>
  \<^verbatim>\<open>str.lower()\<close> maps every cased letter of Unicode to its lower-case form, by the
  tables of the interpreter. It is the parameter \<open>str_lower\<close> of every function that
  calls it, and nothing is assumed about it.
\<close>

fun py_lower :: "(string \<Rightarrow> string) \<Rightarrow> json \<Rightarrow> exn + string" where
  "py_lower str_lower (JStr s) = Inr (str_lower s)"
| "py_lower str_lower _ = Inl AttributeError"

text \<open>
  What \<^verbatim>\<open>str.lower()\<close> returns on ASCII text: the letters \<open>A\<close> to \<open>Z\<close> become
  \<open>a\<close> to \<open>z\<close>. The examples, which are ASCII text, are evaluated with it.
\<close>

definition ascii_lower_char :: "char \<Rightarrow> char" where
  "ascii_lower_char c =
     (if CHR ''A'' \<le> c \<and> c \<le> CHR ''Z'' then char_of (of_char c + (32::nat)) else c)"

definition ascii_lower :: "string \<Rightarrow> string" where
  "ascii_lower s = map ascii_lower_char s"

text \<open>\<^verbatim>\<open>a in b\<close> on two strings: \<open>a\<close> occurs in \<open>b\<close> as a contiguous substring.\<close>

fun str_in :: "string \<Rightarrow> string \<Rightarrow> bool" where
  "str_in a [] = (a = [])"
| "str_in a (c # cs) = (prefix a (c # cs) \<or> str_in a cs)"

text \<open>\<^verbatim>\<open>s.startswith(p)\<close>.\<close>

definition startswith :: "string \<Rightarrow> string \<Rightarrow> bool" where
  "startswith s p = prefix p s"

text \<open>
  \<^verbatim>\<open>v > t\<close> for a float \<open>t\<close>: numbers compare by value, a boolean counts as 0 or 1, and
  any other operand raises.
\<close>

fun py_gt :: "json \<Rightarrow> real \<Rightarrow> exn + bool" where
  "py_gt (JNum r) t = Inr (r > t)"
| "py_gt (JBool b) t = Inr (of_bool b > t)"
| "py_gt _ t = Inl TypeError"

section \<open>The persisted documents\<close>

text \<open>
  A file of the configuration directory, as the loaders see it: absent; out of reach, when
  its status cannot be read (the directory is not searchable, say, and \<^verbatim>\<open>stat\<close> fails
  with \<open>EACCES\<close>); present but not
  readable (\<^verbatim>\<open>open\<close> or the read raises \<open>IOError\<close>); present with bytes that
  are not UTF-8 text (the read raises \<open>UnicodeDecodeError\<close>); present with text
  that \<^verbatim>\<open>json.load\<close> rejects with \<open>JSONDecodeError\<close> (an empty document, or one cut
  short between two characters, is such a text); or present with a well-formed document,
  identified with the value it parses to.
\<close>

datatype disk_file = Missing | Inaccessible | Unreadable | Undecodable | Corrupt | Doc json

text \<open>
  The configuration directory: it exists or can be created, or it cannot (its name is taken
  by a regular file, or its parent is not writable) and \<^verbatim>\<open>mkdir\<close> raises.
\<close>

datatype dir_state = Usable | Blocked

record fs =
  CONFIG_DIR :: dir_state
  CONFIG_FILE :: disk_file
  TOKEN_CACHE_FILE :: disk_file
  COOKIE_FILE :: disk_file
  RESOURCES_FILE :: disk_file

text \<open>
  \<^verbatim>\<open>path.exists()\<close> calls \<^verbatim>\<open>stat\<close>; it answers \<^verbatim>\<open>False\<close> when there is no such
  file and raises every other error of \<^verbatim>\<open>stat\<close> again. Every loader calls it before
  its \<^verbatim>\<open>try\<close> block.
\<close>

fun exists :: "disk_file \<Rightarrow> exn + bool" where
  "exists Missing = Inr False"
| "exists Inaccessible = Inl IOError"
| "exists _ = Inr True"

text \<open>\<^verbatim>\<open>with open(path, "r") as f: json.load(f)\<close>.\<close>

fun read_json :: "disk_file \<Rightarrow> exn + json" where
  "read_json Missing = Inl IOError"
| "read_json Inaccessible = Inl IOError"
| "read_json Unreadable = Inl IOError"
| "read_json Undecodable = Inl UnicodeDecodeError"
| "read_json Corrupt = Inl JSONDecodeError"
| "read_json (Doc j) = Inr j"

text \<open>
  \<^verbatim>\<open>with open(path, "w") as f: json.dump(data, f)\<close>. Mode \<^verbatim>\<open>"w"\<close> truncates the
  existing file when it opens it and the document is then written in place. What can go
  wrong is a parameter of each write: nothing; \<^verbatim>\<open>open\<close> raises and the file is as it
  was; or the write is interrupted after the truncation, which leaves a proper prefix of the
  document's bytes. A proper prefix of a JSON object never parses; when the cut falls
  inside a multi-byte character (\<^verbatim>\<open>ensure_ascii=False\<close> writes such characters) it
  does not even decode.
\<close>

datatype cut = BetweenCharacters | InsideCharacter

datatype fault = NoFault | OpenFails | WriteFails cut

fun write_json :: "fault \<Rightarrow> json \<Rightarrow> disk_file \<Rightarrow> (exn + unit) \<times> disk_file" where
  "write_json NoFault data f = (Inr (), Doc data)"
| "write_json OpenFails data f = (Inl IOError, f)"
| "write_json (WriteFails BetweenCharacters) data f = (Inl IOError, Corrupt)"
| "write_json (WriteFails InsideCharacter) data f = (Inl IOError, Undecodable)"

text \<open>
  \<^verbatim>\<open>ensure_config_dir\<close>: \<^verbatim>\<open>CONFIG_DIR.mkdir(parents=True, exist_ok=True)\<close>. No
  function calls it inside a \<^verbatim>\<open>try\<close> block.
\<close>

definition ensure_config_dir :: "fs \<Rightarrow> exn + unit" where
  "ensure_config_dir s = (case CONFIG_DIR s of Usable \<Rightarrow> Inr () | Blocked \<Rightarrow> Inl IOError)"

section \<open>config.py\<close>

definition DEFAULT_CONFIG :: pydict where
  "DEFAULT_CONFIG =
     [(''api_base_url'', JStr ''https://qz.sii.edu.cn''),
      (''username'', JStr ''''),
      (''password'', JStr ''''),
      (''token_cache_enabled'', JBool True)]"

text \<open>\<^verbatim>\<open>{**a, **b}\<close>: the entries of \<open>b\<close> are stored into \<open>a\<close> one after the other.\<close>

definition dict_merge :: "pydict \<Rightarrow> pydict \<Rightarrow> pydict" where
  "dict_merge a b = fold (\<lambda>kv acc. AList.update (fst kv) (snd kv) acc) b a"

definition load_config :: "fs \<Rightarrow> exn + json" where
  "load_config s =
     bind_exn (ensure_config_dir s) (\<lambda>_.
     bind_exn (exists (CONFIG_FILE s)) (\<lambda>there.
       if there then
         (case read_json (CONFIG_FILE s) of
            Inr config \<Rightarrow>
              (case config of
                 JObj kvs \<Rightarrow> Inr (JObj (dict_merge DEFAULT_CONFIG kvs))
               | _ \<Rightarrow> Inl TypeError)
          | Inl e \<Rightarrow> if caught e then Inr (JObj DEFAULT_CONFIG) else Inl e)
       else Inr (JObj DEFAULT_CONFIG)))"

text \<open>
  \<^verbatim>\<open>get_token_cache\<close>. \<open>now\<close> is the value of \<^verbatim>\<open>time.time()\<close> and
  \<open>float_add\<close> the addition of two floats, so that \<open>float_add now 300\<close> is
  \<^verbatim>\<open>time.time() + 300\<close> as the interpreter computes it.
\<close>

definition get_token_cache :: "(real \<Rightarrow> real \<Rightarrow> real) \<Rightarrow> fs \<Rightarrow> real \<Rightarrow> exn + json option" where
  "get_token_cache float_add s now =
     bind_exn (exists (TOKEN_CACHE_FILE s)) (\<lambda>there.
       if \<not> there then Inr None
       else
         (case read_json (TOKEN_CACHE_FILE s) of
            Inr cache \<Rightarrow>
              bind_exn (py_get cache ''expires_at'' (JNum 0)) (\<lambda>v.
              bind_exn (py_gt v (float_add now 300)) (\<lambda>b.
                if b then Inr (Some cache) else Inr None))
          | Inl e \<Rightarrow> if caught e then Inr None else Inl e))"

definition save_cookie :: "string \<Rightarrow> string \<Rightarrow> real \<Rightarrow> fault \<Rightarrow> fs \<Rightarrow> (exn + unit) \<times> fs" where
  "save_cookie cookie workspace_id now ft s =
     (case ensure_config_dir s of
        Inl e \<Rightarrow> (Inl e, s)
      | Inr _ \<Rightarrow>
          (let data = JObj [(''cookie'', JStr cookie),
                            (''workspace_id'', JStr workspace_id),
                            (''saved_at'', JNum now)]
           in case write_json ft data (COOKIE_FILE s) of
                (r, f) \<Rightarrow> (r, s\<lparr>COOKIE_FILE := f\<rparr>)))"

definition get_cookie :: "fs \<Rightarrow> exn + json option" where
  "get_cookie s =
     bind_exn (exists (COOKIE_FILE s)) (\<lambda>there.
       if \<not> there then Inr None
       else
         (case read_json (COOKIE_FILE s) of
            Inr j \<Rightarrow> Inr (Some j)
          | Inl e \<Rightarrow> if caught e then Inr None else Inl e))"

definition load_all_resources :: "fs \<Rightarrow> exn + json" where
  "load_all_resources s =
     bind_exn (exists (RESOURCES_FILE s)) (\<lambda>there.
       if \<not> there then Inr (JObj [])
       else
         (case read_json (RESOURCES_FILE s) of
            Inr j \<Rightarrow> Inr j
          | Inl e \<Rightarrow> if caught e then Inr (JObj []) else Inl e))"

text \<open>
  The dictionary comprehension \<^verbatim>\<open>{p["id"]: p for p in ps}\<close>, entry by entry. The
  identifiers of this program are strings; a list or a dictionary cannot be a key, and the
  other values (which Python would accept and \<^verbatim>\<open>json.dump\<close> would turn into text) are
  not covered and are rejected alike.
\<close>

fun keyed_by_id :: "pydict \<Rightarrow> json list \<Rightarrow> exn + pydict" where
  "keyed_by_id acc [] = Inr acc"
| "keyed_by_id acc (p # ps) =
     bind_exn (py_getitem p ''id'') (\<lambda>k.
       case k of
         JStr i \<Rightarrow> keyed_by_id (AList.update i p acc) ps
       | _ \<Rightarrow> Inl TypeError)"

text \<open>\<^verbatim>\<open>{x["id"]: x for x in resources.get(category, [])}\<close>.\<close>

definition category_map :: "json \<Rightarrow> string \<Rightarrow> exn + json" where
  "category_map resources category =
     bind_exn (py_get resources category (JArr [])) (\<lambda>l.
     bind_exn (py_iter l) (\<lambda>ps.
     bind_exn (keyed_by_id [] ps) (\<lambda>m. Inr (JObj m))))"

text \<open>\<^verbatim>\<open>all_resources[k] = v\<close>: only a dictionary accepts a string subscript.\<close>

fun py_setitem :: "json \<Rightarrow> string \<Rightarrow> json \<Rightarrow> exn + json" where
  "py_setitem (JObj kvs) k v = Inr (JObj (AList.update k v kvs))"
| "py_setitem _ k v = Inl TypeError"

text \<open>
  \<^verbatim>\<open>save_resources\<close> up to the write: the cache is loaded and the entry of the workspace
  is assigned. The right-hand side of the assignment is evaluated first, field by field.
\<close>

definition save_resources_document ::
  "fs \<Rightarrow> string \<Rightarrow> json \<Rightarrow> string \<Rightarrow> real \<Rightarrow> exn + json" where
  "save_resources_document s workspace_id resources name now =
     bind_exn (load_all_resources s) (\<lambda>all_resources.
     bind_exn (if name \<noteq> [] then Inr (JStr name)
               else bind_exn (py_get all_resources workspace_id (JObj [])) (\<lambda>old.
                    py_get old ''name'' (JStr ''''))) (\<lambda>nm.
     bind_exn (category_map resources ''projects'') (\<lambda>projects.
     bind_exn (category_map resources ''compute_groups'') (\<lambda>compute_groups.
     bind_exn (category_map resources ''specs'') (\<lambda>specs.
       py_setitem all_resources workspace_id
         (JObj [(''id'', JStr workspace_id),
                (''name'', nm),
                (''projects'', projects),
                (''compute_groups'', compute_groups),
                (''specs'', specs),
                (''updated_at'', JNum now)]))))))"

definition save_resources ::
  "string \<Rightarrow> json \<Rightarrow> string \<Rightarrow> real \<Rightarrow> fault \<Rightarrow> fs \<Rightarrow> (exn + unit) \<times> fs" where
  "save_resources workspace_id resources name now ft s =
     (case ensure_config_dir s of
        Inl e \<Rightarrow> (Inl e, s)
      | Inr _ \<Rightarrow>
          (case save_resources_document s workspace_id resources name now of
             Inl e \<Rightarrow> (Inl e, s)
           | Inr doc \<Rightarrow>
               (case write_json ft doc (RESOURCES_FILE s) of
                  (r, f) \<Rightarrow> (r, s\<lparr>RESOURCES_FILE := f\<rparr>))))"

text \<open>\<^verbatim>\<open>all_resources.get(workspace_id)\<close>: \<open>JNull\<close> is Python's \<^verbatim>\<open>None\<close>.\<close>

definition get_workspace_resources :: "fs \<Rightarrow> string \<Rightarrow> exn + json" where
  "get_workspace_resources s workspace_id =
     bind_exn (load_all_resources s) (\<lambda>all_resources.
       py_get all_resources workspace_id JNull)"

text \<open>
  \<^verbatim>\<open>set_workspace_name\<close> up to the write: \<^verbatim>\<open>k not in d\<close> followed by
  \<^verbatim>\<open>d[k] = v\<close> or \<^verbatim>\<open>d[k]["name"] = name\<close>. On a value that is not a dictionary one
  of the two steps raises \<open>TypeError\<close>, and so does the assignment into an entry that is
  not a dictionary.
\<close>

definition set_workspace_name_document ::
  "fs \<Rightarrow> string \<Rightarrow> string \<Rightarrow> real \<Rightarrow> exn + json" where
  "set_workspace_name_document s workspace_id name now =
     bind_exn (load_all_resources s) (\<lambda>all_resources.
       case all_resources of
         JObj kvs \<Rightarrow>
           (case map_of kvs workspace_id of
              None \<Rightarrow>
                Inr (JObj (AList.update workspace_id
                  (JObj [(''id'', JStr workspace_id),
                         (''name'', JStr name),
                         (''projects'', JObj []),
                         (''compute_groups'', JObj []),
                         (''specs'', JObj []),
                         (''updated_at'', JNum now)]) kvs))
            | Some entry \<Rightarrow>
                bind_exn (py_setitem entry ''name'' (JStr name)) (\<lambda>entry'.
                  Inr (JObj (AList.update workspace_id entry' kvs))))
       | _ \<Rightarrow> Inl TypeError)"

definition set_workspace_name ::
  "string \<Rightarrow> string \<Rightarrow> real \<Rightarrow> fault \<Rightarrow> fs \<Rightarrow> (exn + bool) \<times> fs" where
  "set_workspace_name workspace_id name now ft s =
     (case set_workspace_name_document s workspace_id name now of
        Inl e \<Rightarrow> (Inl e, s)
      | Inr doc \<Rightarrow>
          (case ensure_config_dir s of
             Inl e \<Rightarrow> (Inl e, s)
           | Inr _ \<Rightarrow>
               (case write_json ft doc (RESOURCES_FILE s) of
                  (Inl e, f) \<Rightarrow> (Inl e, s\<lparr>RESOURCES_FILE := f\<rparr>)
                | (Inr u, f) \<Rightarrow> (Inr True, s\<lparr>RESOURCES_FILE := f\<rparr>))))"

text \<open>The first loop of \<^verbatim>\<open>find_workspace_by_name\<close>: exact match on the alias.\<close>

fun ws_exact_pass :: "string \<Rightarrow> pydict \<Rightarrow> exn + string option" where
  "ws_exact_pass name [] = Inr None"
| "ws_exact_pass name ((ws_id, ws_data) # rest) =
     bind_exn (py_get ws_data ''name'' (JStr '''')) (\<lambda>n.
       if n = JStr name then Inr (Some ws_id) else ws_exact_pass name rest)"

text \<open>The second loop: the lower-cased query occurs in the lower-cased alias.\<close>

fun ws_fuzzy_pass :: "(string \<Rightarrow> string) \<Rightarrow> string \<Rightarrow> pydict \<Rightarrow> exn + string option" where
  "ws_fuzzy_pass str_lower name [] = Inr None"
| "ws_fuzzy_pass str_lower name ((ws_id, ws_data) # rest) =
     bind_exn (py_get ws_data ''name'' (JStr '''')) (\<lambda>n.
     bind_exn (py_lower str_lower n) (\<lambda>ln.
       if str_in (str_lower name) ln then Inr (Some ws_id)
       else ws_fuzzy_pass str_lower name rest))"

definition find_workspace_by_name ::
  "(string \<Rightarrow> string) \<Rightarrow> fs \<Rightarrow> string \<Rightarrow> exn + string option" where
  "find_workspace_by_name str_lower s name =
     bind_exn (load_all_resources s) (\<lambda>all_resources.
     bind_exn (py_items all_resources) (\<lambda>items.
     bind_exn (ws_exact_pass name items) (\<lambda>r.
       case r of
         Some ws_id \<Rightarrow> Inr (Some ws_id)
       | None \<Rightarrow> ws_fuzzy_pass str_lower name items)))"

text \<open>The two loops of \<^verbatim>\<open>find_resource_by_name\<close>; they return the record, not its key.\<close>

fun res_exact_pass :: "string \<Rightarrow> pydict \<Rightarrow> exn + json option" where
  "res_exact_pass name [] = Inr None"
| "res_exact_pass name ((res_id, res_data) # rest) =
     bind_exn (py_get res_data ''name'' (JStr '''')) (\<lambda>res_name.
       if res_name = JStr name then Inr (Some res_data) else res_exact_pass name rest)"

fun res_fuzzy_pass :: "(string \<Rightarrow> string) \<Rightarrow> string \<Rightarrow> pydict \<Rightarrow> exn + json option" where
  "res_fuzzy_pass str_lower name [] = Inr None"
| "res_fuzzy_pass str_lower name ((res_id, res_data) # rest) =
     bind_exn (py_get res_data ''name'' (JStr '''')) (\<lambda>res_name.
     bind_exn (py_lower str_lower res_name) (\<lambda>ln.
       if str_in (str_lower name) ln then Inr (Some res_data)
       else res_fuzzy_pass str_lower name rest))"

definition find_resource_by_name ::
  "(string \<Rightarrow> string) \<Rightarrow> fs \<Rightarrow> string \<Rightarrow> string \<Rightarrow> string \<Rightarrow> exn + json option" where
  "find_resource_by_name str_lower s workspace_id resource_type name =
     bind_exn (get_workspace_resources s workspace_id) (\<lambda>ws_resources.
       if \<not> truthy ws_resources then Inr None
       else
         bind_exn (py_get ws_resources resource_type (JObj [])) (\<lambda>resources.
         bind_exn (py_items resources) (\<lambda>items.
         bind_exn (res_exact_pass name items) (\<lambda>r.
           case r of
             Some res_data \<Rightarrow> Inr (Some res_data)
           | None \<Rightarrow> res_fuzzy_pass str_lower name items))))"

section \<open>cli.py\<close>

text \<open>
  \<^verbatim>\<open>cmd_list_cookie\<close>, the branch taken when a workspace token is given (lines 82 to 95):
  the result is the pair of workspace id and display name the command goes on with, or
  \<open>None\<close> when the command reports that no workspace has that name and returns 1.
\<close>

definition cmd_list_cookie_resolve ::
  "(string \<Rightarrow> string) \<Rightarrow> fs \<Rightarrow> string \<Rightarrow> exn + (string \<times> json) option" where
  "cmd_list_cookie_resolve str_lower s workspace_input =
     (if startswith workspace_input ''ws-'' then
        bind_exn (get_workspace_resources s workspace_input) (\<lambda>ws_resources.
        bind_exn (if truthy ws_resources then py_get ws_resources ''name'' (JStr '''')
                  else Inr (JStr '''')) (\<lambda>ws_name.
          Inr (Some (workspace_input, ws_name))))
      else
        bind_exn (find_workspace_by_name str_lower s workspace_input) (\<lambda>r.
          case r of
            None \<Rightarrow> Inr None
          | Some workspace_id \<Rightarrow>
              if workspace_id = [] then Inr None
              else
                bind_exn (get_workspace_resources s workspace_id) (\<lambda>ws_resources.
                bind_exn (if truthy ws_resources then py_get ws_resources ''name'' (JStr '''')
                          else Inr (JStr workspace_input)) (\<lambda>ws_name.
                  Inr (Some (workspace_id, ws_name))))))"

text \<open>
  \<^verbatim>\<open>cmd_avail\<close>, the same choice for a given token (lines 743 to 753): the list of
  workspace ids to query, or \<open>None\<close> when the command returns 1.
\<close>

definition cmd_avail_resolve ::
  "(string \<Rightarrow> string) \<Rightarrow> fs \<Rightarrow> string \<Rightarrow> exn + string list option" where
  "cmd_avail_resolve str_lower s workspace_input =
     (if startswith workspace_input ''ws-'' then Inr (Some [workspace_input])
      else
        bind_exn (find_workspace_by_name str_lower s workspace_input) (\<lambda>r.
          case r of
            None \<Rightarrow> Inr None
          | Some workspace_id \<Rightarrow>
              if workspace_id = [] then Inr None else Inr (Some [workspace_id])))"

text \<open>\<^verbatim>\<open>k in x\<close> for a string \<open>k\<close>.\<close>

fun py_contains :: "json \<Rightarrow> string \<Rightarrow> exn + bool" where
  "py_contains (JObj kvs) k = Inr (map_of kvs k \<noteq> None)"
| "py_contains (JArr xs) k = Inr (JStr k \<in> set xs)"
| "py_contains (JStr t) k = Inr (str_in k t)"
| "py_contains _ k = Inl TypeError"

text \<open>
  \<^verbatim>\<open>cmd_avail\<close>, the compute-group filter applied to one workspace's cached groups (lines
  771 to 782), for a non-empty filter: the groups to query, or \<open>None\<close> when the loop
  moves on to the next workspace. As in \<open>keyed_by_id\<close>, the key \<^verbatim>\<open>found["id"]\<close> is a
  string.
\<close>

definition cmd_avail_select_group ::
  "(string \<Rightarrow> string) \<Rightarrow> fs \<Rightarrow> string \<Rightarrow> json \<Rightarrow> string \<Rightarrow> exn + json option" where
  "cmd_avail_select_group str_lower s workspace_id compute_groups group_filter =
     (if startswith group_filter ''lcg-'' then
        bind_exn (py_contains compute_groups group_filter) (\<lambda>b.
          if b then
            bind_exn (py_getitem compute_groups group_filter) (\<lambda>g.
              Inr (Some (JObj [(group_filter, g)])))
          else Inr None)
      else
        bind_exn (find_resource_by_name str_lower s workspace_id ''compute_groups''
                    group_filter) (\<lambda>r.
          case r of
            None \<Rightarrow> Inr None
          | Some found \<Rightarrow>
              if \<not> truthy found then Inr None
              else
                bind_exn (py_getitem found ''id'') (\<lambda>k.
                  case k of
                    JStr i \<Rightarrow> Inr (Some (JObj [(i, found)]))
                  | _ \<Rightarrow> Inl TypeError)))"

text \<open>
  Modelled from the spec: the class \<^verbatim>\<open>JobRecord\<close> is declared in a module that is not
  part of the sources at hand. The listing reads two of its fields, the status (a string) and
  the creation time (a string, possibly absent); the record's other fields (name, source,
  workspace, project, metadata) are whatever the extension of the record holds.
\<close>

record job_record =
  job_id :: string
  status :: string
  created_at :: "string option"

text \<open>The sort key \<^verbatim>\<open>x.created_at or ""\<close>.\<close>

definition created_key :: "'a job_record_scheme \<Rightarrow> string" where
  "created_key x = (case created_at x of None \<Rightarrow> '''' | Some c \<Rightarrow> c)"

text \<open>
  \<^verbatim>\<open>xs.sort(key=k, reverse=True)\<close>: the list is reversed, sorted stably in ascending order
  of the key, and reversed again, so that records with equal keys keep their order.
\<close>

definition sort_reverse :: "('a \<Rightarrow> 'k::linorder) \<Rightarrow> 'a list \<Rightarrow> 'a list" where
  "sort_reverse k xs = rev (sort_key k (rev xs))"

text \<open>The slice \<^verbatim>\<open>xs[:n]\<close>; a negative \<open>n\<close> counts from the end.\<close>

definition slice_to :: "int \<Rightarrow> 'a list \<Rightarrow> 'a list" where
  "slice_to n xs = (if 0 \<le> n then take (nat n) xs else take (length xs - nat (- n)) xs)"

text \<open>The test of the \<^verbatim>\<open>--running\<close> filter.\<close>

definition is_active :: "(string \<Rightarrow> string) \<Rightarrow> 'a job_record_scheme \<Rightarrow> bool" where
  "is_active str_lower j =
     (str_lower (status j) \<in> {''job_running'', ''job_queuing'', ''job_pending'',
                               ''running'', ''queuing'', ''pending''}
      \<or> str_in ''running'' (str_lower (status j))
      \<or> str_in ''queue'' (str_lower (status j)))"

text \<open>
  \<^verbatim>\<open>cmd_list_cookie\<close>, lines 143 to 159: sort, filter by status, filter the active jobs,
  cut to the limit. \<open>args_status\<close> is \<open>None\<close> when the option is not given; an
  empty string is false in \<^verbatim>\<open>if args.status\<close> and filters nothing either.
\<close>

definition list_pipeline ::
  "(string \<Rightarrow> string) \<Rightarrow> string option \<Rightarrow> bool \<Rightarrow> int \<Rightarrow>
     'a job_record_scheme list \<Rightarrow> 'a job_record_scheme list" where
  "list_pipeline str_lower args_status args_running args_limit all_jobs =
     (let sorted_jobs = sort_reverse created_key all_jobs;
          by_status =
            (case args_status of
               None \<Rightarrow> sorted_jobs
             | Some st \<Rightarrow>
                 if st = [] then sorted_jobs
                 else filter (\<lambda>j. str_in (str_lower st) (str_lower (status j))) sorted_jobs);
          by_running =
            (if args_running then filter (is_active str_lower) by_status else by_status)
      in slice_to args_limit by_running)"

section \<open>What the specification says, in its own words\<close>

text \<open>
  The alias of a cache entry or the name of a resource record: the string stored under
  \<open>name\<close>, empty when there is none.
\<close>

definition alias_of :: "json \<Rightarrow> string" where
  "alias_of e =
     (case e of
        JObj f \<Rightarrow> (case map_of f ''name'' of Some (JStr n) \<Rightarrow> n | _ \<Rightarrow> '''')
      | _ \<Rightarrow> '''')"

text \<open>A cache entry or resource record: a dictionary whose name, when present, is a string.\<close>

definition named_record :: "json \<Rightarrow> bool" where
  "named_record e =
     (case e of
        JObj f \<Rightarrow> (case map_of f ''name'' of None \<Rightarrow> True | Some (JStr n) \<Rightarrow> True | _ \<Rightarrow> False)
      | _ \<Rightarrow> False)"

text \<open>
  Two-pass resolution of a query against candidates listed in iteration order, each with
  its alias: the first candidate whose alias equals the query; failing that, the first whose
  alias contains the query when both are lower-cased by \<open>str_lower\<close>; failing that,
  nothing.
\<close>

definition two_pass :: "(string \<Rightarrow> string) \<Rightarrow> string \<Rightarrow> ('r \<times> string) list \<Rightarrow> 'r option" where
  "two_pass str_lower q cands =
     (case find (\<lambda>c. snd c = q) cands of
        Some c \<Rightarrow> Some (fst c)
      | None \<Rightarrow>
          (case find (\<lambda>c. str_in (str_lower q) (str_lower (snd c))) cands of
             Some c \<Rightarrow> Some (fst c)
           | None \<Rightarrow> None))"

text \<open>
  The map of one category in the cache entry of one workspace, in iteration order; empty
  when the workspace has no entry or the entry has no such category.
\<close>

definition category_items :: "pydict \<Rightarrow> string \<Rightarrow> string \<Rightarrow> pydict" where
  "category_items cache workspace_id category =
     (case map_of cache workspace_id of
        Some (JObj entry) \<Rightarrow> (case map_of entry category of Some (JObj items) \<Rightarrow> items | _ \<Rightarrow> [])
      | _ \<Rightarrow> [])"

text \<open>
  The cache holds resource records for a category of a workspace: the workspace has no
  entry, or its entry is a dictionary in which the category is absent or a dictionary of
  named records.
\<close>

definition cached_category :: "pydict \<Rightarrow> string \<Rightarrow> string \<Rightarrow> bool" where
  "cached_category cache workspace_id category =
     (case map_of cache workspace_id of
        None \<Rightarrow> True
      | Some (JObj entry) \<Rightarrow>
          (case map_of entry category of
             None \<Rightarrow> True
           | Some (JObj items) \<Rightarrow> list_all named_record (map snd items)
           | _ \<Rightarrow> False)
      | _ \<Rightarrow> False)"

text \<open>A value is a dictionary.\<close>

definition is_dict :: "json \<Rightarrow> bool" where
  "is_dict e = (case e of JObj f \<Rightarrow> True | _ \<Rightarrow> False)"

text \<open>The identifier of a resource record, when it has one.\<close>

definition id_of :: "json \<Rightarrow> string option" where
  "id_of p =
     (case p of
        JObj f \<Rightarrow> (case map_of f ''id'' of Some (JStr i) \<Rightarrow> Some i | _ \<Rightarrow> None)
      | _ \<Rightarrow> None)"

text \<open>The list a resources argument holds for a category; none is the empty list.\<close>

definition category_list :: "json \<Rightarrow> string \<Rightarrow> json list" where
  "category_list resources category =
     (case resources of
        JObj r \<Rightarrow> (case map_of r category of Some (JArr ps) \<Rightarrow> ps | _ \<Rightarrow> [])
      | _ \<Rightarrow> [])"

text \<open>
  A resources argument as the resource extraction produces it: a dictionary in which each of
  the three categories is absent or a list of records with an identifier.
\<close>

definition resource_lists :: "json \<Rightarrow> bool" where
  "resource_lists resources =
     (case resources of
        JObj r \<Rightarrow>
          list_all (\<lambda>category.
            case map_of r category of
              None \<Rightarrow> True
            | Some (JArr ps) \<Rightarrow> list_all (\<lambda>p. id_of p \<noteq> None) ps
            | _ \<Rightarrow> False) [''projects'', ''compute_groups'', ''specs'']
      | _ \<Rightarrow> False)"

text \<open>The record a list holds for an identifier: the last one that carries it.\<close>

definition by_id :: "json list \<Rightarrow> string \<Rightarrow> json option" where
  "by_id ps i = find (\<lambda>p. id_of p = Some i) (rev ps)"

text \<open>The value stored under a key of a dictionary, with a default.\<close>

definition field :: "json \<Rightarrow> string \<Rightarrow> json \<Rightarrow> json" where
  "field e k d = (case e of JObj f \<Rightarrow> (case map_of f k of Some v \<Rightarrow> v | None \<Rightarrow> d) | _ \<Rightarrow> d)"

text \<open>
  The expiry time of a token record: the number stored under \<open>expires_at\<close>, 0 when
  there is none (a boolean counts as 0 or 1, as Python compares it). A value that is not a
  dictionary, or whose \<open>expires_at\<close> is a string, a list, a dictionary or
  \<^verbatim>\<open>null\<close>, has none.
\<close>

definition expiry :: "json \<Rightarrow> real option" where
  "expiry c =
     (case c of
        JObj f \<Rightarrow>
          (case map_of f ''expires_at'' of
             None \<Rightarrow> Some 0
           | Some (JNum t) \<Rightarrow> Some t
           | Some (JBool b) \<Rightarrow> Some (of_bool b)
           | _ \<Rightarrow> None)
      | _ \<Rightarrow> None)"

section \<open>Example states\<close>

definition ws_entry :: "string \<Rightarrow> string \<Rightarrow> pydict \<Rightarrow> real \<Rightarrow> json" where
  "ws_entry i n groups t =
     JObj [(''id'', JStr i), (''name'', JStr n), (''projects'', JObj []),
           (''compute_groups'', JObj groups), (''specs'', JObj []), (''updated_at'', JNum t)]"

definition group_h100 :: json where
  "group_h100 = JObj [(''id'', JStr ''lcg-1''), (''name'', JStr ''H100''), (''gpu_type'', JStr ''H100'')]"

definition group_h100_spot :: json where
  "group_h100_spot = JObj [(''id'', JStr ''lcg-2''), (''name'', JStr ''h100-spot'')]"

text \<open>
  A cache of two workspaces; the alias that contains \<open>gpu-team\<close> comes first in
  iteration order, the alias that equals \<open>GPU-Team\<close> second.
\<close>

definition example_cache :: pydict where
  "example_cache =
     [(''ws-1'', ws_entry ''ws-1'' ''gpu-team-backup''
                   [(''lcg-2'', group_h100_spot), (''lcg-1'', group_h100)] 10),
      (''ws-2'', ws_entry ''ws-2'' ''GPU-Team'' [] 20)]"

definition example_fs :: fs where
  "example_fs =
     \<lparr>CONFIG_DIR = Usable,
      CONFIG_FILE = Corrupt,
      TOKEN_CACHE_FILE = Doc (JObj [(''token'', JStr ''t0''), (''expires_at'', JNum 2000)]),
      COOKIE_FILE = Doc (JObj [(''cookie'', JStr ''old''), (''workspace_id'', JStr ''ws-0''),
                               (''saved_at'', JNum 1)]),
      RESOURCES_FILE = Doc (JObj example_cache)\<rparr>"

text \<open>A cache in which the alias of one workspace looks like the identifier of the other.\<close>

definition alias_clash_fs :: fs where
  "alias_clash_fs =
     \<lparr>CONFIG_DIR = Usable,
      CONFIG_FILE = Missing, TOKEN_CACHE_FILE = Missing, COOKIE_FILE = Missing,
      RESOURCES_FILE = Doc (JObj [(''ws-1'', ws_entry ''ws-1'' ''ws-2'' [] 10),
                                  (''ws-2'', ws_entry ''ws-2'' ''prod'' [] 20)])\<rparr>"

definition empty_fs :: fs where
  "empty_fs =
     \<lparr>CONFIG_DIR = Usable,
      CONFIG_FILE = Missing, TOKEN_CACHE_FILE = Missing, COOKIE_FILE = Missing,
      RESOURCES_FILE = Missing\<rparr>"

text \<open>
  A workspace name with a two-byte character (the UTF-8 bytes of an accented \<open>e\<close>); the
  state an interrupted \<^verbatim>\<open>save_resources\<close> leaves when the cut falls inside such a
  character; and a state in which the directory cannot be created.
\<close>

definition accented_name :: string where
  "accented_name = ''Caf'' @ [CHR 0xC3, CHR 0xA9]"

definition cut_short_fs :: fs where
  "cut_short_fs =
     \<lparr>CONFIG_DIR = Usable,
      CONFIG_FILE = Undecodable, TOKEN_CACHE_FILE = Undecodable, COOKIE_FILE = Undecodable,
      RESOURCES_FILE = Undecodable\<rparr>"

definition blocked_fs :: fs where
  "blocked_fs =
     \<lparr>CONFIG_DIR = Blocked,
      CONFIG_FILE = Missing, TOKEN_CACHE_FILE = Missing, COOKIE_FILE = Missing,
      RESOURCES_FILE = Missing\<rparr>"

text \<open>
  Token-cache files that do not hold a token record: a JSON list, \<^verbatim>\<open>null\<close>, and a
  dictionary whose expiry time is a string.
\<close>

definition null_token_fs :: fs where
  "null_token_fs =
     \<lparr>CONFIG_DIR = Usable,
      CONFIG_FILE = Missing, TOKEN_CACHE_FILE = Doc JNull, COOKIE_FILE = Missing,
      RESOURCES_FILE = Missing\<rparr>"

definition text_expiry_fs :: fs where
  "text_expiry_fs =
     \<lparr>CONFIG_DIR = Usable,
      CONFIG_FILE = Missing,
      TOKEN_CACHE_FILE = Doc (JObj [(''token'', JStr ''t0''), (''expires_at'', JStr ''2030-01-01'')]),
      COOKIE_FILE = Missing,
      RESOURCES_FILE = Missing\<rparr>"

definition list_token_fs :: fs where
  "list_token_fs =
     \<lparr>CONFIG_DIR = Usable,
      CONFIG_FILE = Missing, TOKEN_CACHE_FILE = Doc (JArr []), COOKIE_FILE = Missing,
      RESOURCES_FILE = Missing\<rparr>"

definition example_resources :: json where
  "example_resources =
     JObj [(''projects'', JArr [JObj [(''id'', JStr ''p-1''), (''name'', JStr ''vision'')]]),
           (''compute_groups'', JArr [group_h100, group_h100_spot, group_h100]),
           (''specs'', JArr [])]"

definition example_jobs :: "job_record list" where
  "example_jobs =
     [\<lparr>job_id = ''job-1'', status = ''job_running'', created_at = Some ''2024-01-01T10:00''\<rparr>,
      \<lparr>job_id = ''job-2'', status = ''job_succeeded'', created_at = Some ''2024-01-03T10:00''\<rparr>,
      \<lparr>job_id = ''job-3'', status = ''RUNNING'', created_at = None\<rparr>,
      \<lparr>job_id = ''job-4'', status = ''RUNNING'', created_at = Some ''2024-01-02T10:00''\<rparr>]"

section \<open>Basic facts\<close>

lemma bind_exn_Inl [simp]: "bind_exn (Inl e) f = Inl e"
  by (simp add: bind_exn_def)

lemma bind_exn_Inr [simp]: "bind_exn (Inr v) f = f v"
  by (simp add: bind_exn_def)

lemma bind_exn_eq_Inr:
  "bind_exn m f = Inr y \<longleftrightarrow> (\<exists>v. m = Inr v \<and> f v = Inr y)"
  by (cases m) simp_all

lemma bind_exn_eq_Inl:
  "bind_exn m f = Inl e \<longleftrightarrow> m = Inl e \<or> (\<exists>v. m = Inr v \<and> f v = Inl e)"
  by (cases m) simp_all

lemma load_all_resources_cases:
  "load_all_resources s =
     (case RESOURCES_FILE s of
        Doc j \<Rightarrow> Inr j
      | Undecodable \<Rightarrow> Inl UnicodeDecodeError
      | Inaccessible \<Rightarrow> Inl IOError
      | _ \<Rightarrow> Inr (JObj []))"
  by (cases "RESOURCES_FILE s") (simp_all add: load_all_resources_def caught_def)

lemma ensure_config_dir_cases:
  "ensure_config_dir s = Inr () \<and> CONFIG_DIR s = Usable \<or>
   ensure_config_dir s = Inl IOError \<and> CONFIG_DIR s = Blocked"
  by (cases "CONFIG_DIR s") (simp_all add: ensure_config_dir_def)

lemma load_all_resources_IOError:
  "load_all_resources s = Inl IOError \<longleftrightarrow> RESOURCES_FILE s = Inaccessible"
  by (simp add: load_all_resources_cases split: disk_file.splits)

lemma py_get_not_IOError: "py_get j k d \<noteq> Inl IOError"
  by (cases j) simp_all

lemma py_getitem_not_IOError: "py_getitem j k \<noteq> Inl IOError"
  by (cases j) (simp_all split: option.splits)

lemma py_iter_not_IOError: "py_iter j \<noteq> Inl IOError"
  by (cases j) simp_all

lemma py_setitem_not_IOError: "py_setitem j k v \<noteq> Inl IOError"
  by (cases j) simp_all

lemma keyed_by_id_not_IOError: "keyed_by_id acc ps \<noteq> Inl IOError"
  by (induction ps arbitrary: acc)
     (auto simp: bind_exn_eq_Inl py_getitem_not_IOError split: json.splits)

lemma category_map_not_IOError: "category_map r c \<noteq> Inl IOError"
  by (auto simp: category_map_def bind_exn_eq_Inl py_get_not_IOError py_iter_not_IOError
        keyed_by_id_not_IOError)

section \<open>Failed writes\<close>

text \<open>
  Before the write, an \<open>IOError\<close> comes from the directory or from the
  \<^verbatim>\<open>exists\<close> test of the loader; the loader catches the one of its own read.
\<close>

lemma save_resources_document_IOError:
  assumes "save_resources_document s w r n t = Inl IOError"
  shows "RESOURCES_FILE s = Inaccessible"
proof (rule ccontr)
  assume "RESOURCES_FILE s \<noteq> Inaccessible"
  then have l: "load_all_resources s \<noteq> Inl IOError"
    by (simp add: load_all_resources_IOError)
  have nm: "(if n \<noteq> [] then Inr (JStr n)
             else bind_exn (py_get v w (JObj [])) (\<lambda>old. py_get old ''name'' (JStr '''')))
            \<noteq> Inl IOError" for v
    by (auto simp: bind_exn_eq_Inl py_get_not_IOError)
  from assms l nm show False
    by (simp add: save_resources_document_def bind_exn_eq_Inl category_map_not_IOError
          py_setitem_not_IOError)
qed

lemma set_workspace_name_document_IOError:
  assumes "set_workspace_name_document s w n t = Inl IOError"
  shows "RESOURCES_FILE s = Inaccessible"
proof (rule ccontr)
  assume "RESOURCES_FILE s \<noteq> Inaccessible"
  then have l: "load_all_resources s \<noteq> Inl IOError"
    by (simp add: load_all_resources_IOError)
  show False
  proof (cases "load_all_resources s")
    case (Inl e)
    with assms l show False by (simp add: set_workspace_name_document_def)
  next
    case (Inr v)
    with assms show False
      by (cases v)
         (auto simp: set_workspace_name_document_def bind_exn_eq_Inl py_setitem_not_IOError
            split: option.splits)
  qed
qed

lemma save_resources_IOError:
  assumes "fst (save_resources w r n t ft s) = Inl IOError"
  shows "(CONFIG_DIR s = Blocked \<or> RESOURCES_FILE s = Inaccessible) \<and>
           save_resources w r n t ft s = (Inl IOError, s) \<or>
         (\<exists>doc. save_resources w r n t ft s =
            (Inl IOError, s\<lparr>RESOURCES_FILE := snd (write_json ft doc (RESOURCES_FILE s))\<rparr>) \<and>
          fst (write_json ft doc (RESOURCES_FILE s)) = Inl IOError)"
proof (cases "CONFIG_DIR s")
  case Blocked
  then show ?thesis by (simp add: save_resources_def ensure_config_dir_def)
next
  case Usable
  show ?thesis
  proof (cases "save_resources_document s w r n t")
    case (Inl e)
    with assms Usable have e: "e = IOError"
      by (simp add: save_resources_def ensure_config_dir_def)
    with Inl have "RESOURCES_FILE s = Inaccessible"
      by (simp add: save_resources_document_IOError)
    with Inl e Usable show ?thesis
      by (simp add: save_resources_def ensure_config_dir_def)
  next
    case (Inr doc)
    with assms Usable have
      "save_resources w r n t ft s =
         (Inl IOError, s\<lparr>RESOURCES_FILE := snd (write_json ft doc (RESOURCES_FILE s))\<rparr>) \<and>
       fst (write_json ft doc (RESOURCES_FILE s)) = Inl IOError"
      by (cases "write_json ft doc (RESOURCES_FILE s)")
         (simp add: save_resources_def ensure_config_dir_def)
    then show ?thesis by (intro disjI2 exI [of _ doc])
  qed
qed

lemma set_workspace_name_IOError:
  assumes "fst (set_workspace_name w n t ft s) = Inl IOError"
  shows "(CONFIG_DIR s = Blocked \<or> RESOURCES_FILE s = Inaccessible) \<and>
           set_workspace_name w n t ft s = (Inl IOError, s) \<or>
         (\<exists>doc. set_workspace_name w n t ft s =
            (Inl IOError, s\<lparr>RESOURCES_FILE := snd (write_json ft doc (RESOURCES_FILE s))\<rparr>) \<and>
          fst (write_json ft doc (RESOURCES_FILE s)) = Inl IOError)"
proof (cases "set_workspace_name_document s w n t")
  case (Inl e)
  with assms have e: "e = IOError"
    by (simp add: set_workspace_name_def)
  with Inl have "RESOURCES_FILE s = Inaccessible"
    by (simp add: set_workspace_name_document_IOError)
  with Inl e show ?thesis
    by (simp add: set_workspace_name_def)
next
  case (Inr doc)
  show ?thesis
  proof (cases "CONFIG_DIR s")
    case Blocked
    with Inr show ?thesis by (simp add: set_workspace_name_def ensure_config_dir_def)
  next
    case Usable
    with assms Inr have
      "set_workspace_name w n t ft s =
         (Inl IOError, s\<lparr>RESOURCES_FILE := snd (write_json ft doc (RESOURCES_FILE s))\<rparr>) \<and>
       fst (write_json ft doc (RESOURCES_FILE s)) = Inl IOError"
      by (cases "write_json ft doc (RESOURCES_FILE s)")
         (simp add: set_workspace_name_def ensure_config_dir_def split: sum.splits)
    then show ?thesis by (intro disjI2 exI [of _ doc])
  qed
qed

lemma failed_write_effect:
  assumes "fst (write_json ft doc (RESOURCES_FILE s)) = Inl IOError"
    and "s' = s\<lparr>RESOURCES_FILE := snd (write_json ft doc (RESOURCES_FILE s))\<rparr>"
  shows "CONFIG_DIR s' = CONFIG_DIR s \<and> CONFIG_FILE s' = CONFIG_FILE s \<and>
         TOKEN_CACHE_FILE s' = TOKEN_CACHE_FILE s \<and> COOKIE_FILE s' = COOKIE_FILE s \<and>
         ((CONFIG_DIR s = Blocked \<or> RESOURCES_FILE s = Inaccessible \<or> ft = OpenFails) \<and>
            RESOURCES_FILE s' = RESOURCES_FILE s \<or>
          ft = WriteFails BetweenCharacters \<and> RESOURCES_FILE s' = Corrupt \<and>
            load_all_resources s' = Inr (JObj []) \<or>
          ft = WriteFails InsideCharacter \<and> RESOURCES_FILE s' = Undecodable \<and>
            load_all_resources s' = Inl UnicodeDecodeError)"
proof (cases ft)
  case NoFault
  with assms show ?thesis by simp
next
  case OpenFails
  with assms show ?thesis by simp
next
  case (WriteFails c)
  with assms show ?thesis by (cases c) (simp_all add: load_all_resources_cases)
qed

text \<open>
  C1, as the code has it. When \<^verbatim>\<open>save_resources\<close> or \<^verbatim>\<open>set_workspace_name\<close> fails with
  an I/O error, the other persisted documents are as they were, and the resource cache is as
  it was only if the error was raised before the file was opened for writing (by the
  directory, or by the loader's test whether the file exists) or on opening
  it. The file is written in place (truncated, then written), so an error during the write
  leaves a truncated document: the next load returns the empty cache, or raises when the
  cut fell inside a multi-byte character.
\<close>

theorem failed_write_leaves_truncated_cache:
  assumes "fst (save_resources workspace_id resources nm now ft s) = Inl IOError
           \<and> s' = snd (save_resources workspace_id resources nm now ft s)
         \<or> fst (set_workspace_name workspace_id nm now ft s) = Inl IOError
           \<and> s' = snd (set_workspace_name workspace_id nm now ft s)"
  shows "CONFIG_DIR s' = CONFIG_DIR s \<and> CONFIG_FILE s' = CONFIG_FILE s \<and>
         TOKEN_CACHE_FILE s' = TOKEN_CACHE_FILE s \<and> COOKIE_FILE s' = COOKIE_FILE s \<and>
         ((CONFIG_DIR s = Blocked \<or> RESOURCES_FILE s = Inaccessible \<or> ft = OpenFails) \<and>
            RESOURCES_FILE s' = RESOURCES_FILE s \<or>
          ft = WriteFails BetweenCharacters \<and> RESOURCES_FILE s' = Corrupt \<and>
            load_all_resources s' = Inr (JObj []) \<or>
          ft = WriteFails InsideCharacter \<and> RESOURCES_FILE s' = Undecodable \<and>
            load_all_resources s' = Inl UnicodeDecodeError)"
proof -
  from assms have "(CONFIG_DIR s = Blocked \<or> RESOURCES_FILE s = Inaccessible) \<and> s' = s \<or>
      (\<exists>doc. s' = s\<lparr>RESOURCES_FILE := snd (write_json ft doc (RESOURCES_FILE s))\<rparr> \<and>
             fst (write_json ft doc (RESOURCES_FILE s)) = Inl IOError)"
  proof (elim disjE conjE)
    assume f: "fst (save_resources workspace_id resources nm now ft s) = Inl IOError"
      and s': "s' = snd (save_resources workspace_id resources nm now ft s)"
    from save_resources_IOError [OF f] show ?thesis unfolding s' by auto
  next
    assume f: "fst (set_workspace_name workspace_id nm now ft s) = Inl IOError"
      and s': "s' = snd (set_workspace_name workspace_id nm now ft s)"
    from set_workspace_name_IOError [OF f] show ?thesis unfolding s' by auto
  qed
  then show ?thesis
  proof (elim disjE conjE exE)
    assume "CONFIG_DIR s = Blocked" "s' = s"
    then show ?thesis by simp
  next
    assume "RESOURCES_FILE s = Inaccessible" "s' = s"
    then show ?thesis by simp
  next
    fix doc
    assume "s' = s\<lparr>RESOURCES_FILE := snd (write_json ft doc (RESOURCES_FILE s))\<rparr>"
      "fst (write_json ft doc (RESOURCES_FILE s)) = Inl IOError"
    then show ?thesis using failed_write_effect by blast
  qed
qed

text \<open>
  The amended statement at a concrete call: \<^verbatim>\<open>open\<close> fails on the example cache, and the
  cache is still the one that was there.
\<close>

theorem failed_write_leaves_truncated_cache_witness:
  "fst (save_resources ''ws-2'' example_resources ''Beta'' 30 OpenFails example_fs) = Inl IOError \<and>
   COOKIE_FILE (snd (save_resources ''ws-2'' example_resources ''Beta'' 30 OpenFails example_fs))
     = COOKIE_FILE example_fs \<and>
   RESOURCES_FILE (snd (save_resources ''ws-2'' example_resources ''Beta'' 30 OpenFails example_fs))
     = Doc (JObj example_cache)"
proof -
  have f: "fst (save_resources ''ws-2'' example_resources ''Beta'' 30 OpenFails example_fs)
             = Inl IOError"
    by (simp add: save_resources_def save_resources_document_def ensure_config_dir_def
          load_all_resources_cases example_fs_def example_cache_def example_resources_def
          category_map_def ws_entry_def group_h100_def group_h100_spot_def)
  have r: "RESOURCES_FILE example_fs = Doc (JObj example_cache)"
    by (simp add: example_fs_def)
  from failed_write_leaves_truncated_cache
         [of "''ws-2''" example_resources "''Beta''" 30 OpenFails example_fs
             "snd (save_resources ''ws-2'' example_resources ''Beta'' 30 OpenFails example_fs)"]
       f r
  show ?thesis by simp
qed

text \<open>
  C1, as the specification states it, fails: the write of \<^verbatim>\<open>save_resources\<close> (and of
  \<^verbatim>\<open>set_workspace_name\<close>) is interrupted on the example cache of two workspaces. The call
  raises the I/O error, the file on disk is no longer the one that was there, and a caller
  that loads the cache afterwards gets the empty map instead of the two workspaces.
\<close>

theorem failed_write_counterexample:
  "fst (save_resources ''ws-2'' example_resources ''Beta'' 30 (WriteFails BetweenCharacters)
         example_fs) = Inl IOError \<and>
   RESOURCES_FILE (snd (save_resources ''ws-2'' example_resources ''Beta'' 30
         (WriteFails BetweenCharacters) example_fs)) \<noteq> RESOURCES_FILE example_fs \<and>
   load_all_resources (snd (save_resources ''ws-2'' example_resources ''Beta'' 30
         (WriteFails BetweenCharacters) example_fs)) = Inr (JObj []) \<and>
   load_all_resources example_fs = Inr (JObj example_cache) \<and>
   example_cache \<noteq> [] \<and>
   fst (set_workspace_name ''ws-2'' ''Beta'' 30 (WriteFails BetweenCharacters) example_fs)
     = Inl IOError \<and>
   RESOURCES_FILE (snd (set_workspace_name ''ws-2'' ''Beta'' 30 (WriteFails BetweenCharacters)
         example_fs)) \<noteq> RESOURCES_FILE example_fs \<and>
   load_all_resources (snd (set_workspace_name ''ws-2'' ''Beta'' 30
         (WriteFails BetweenCharacters) example_fs)) = Inr (JObj [])"
  by (simp add: save_resources_def set_workspace_name_def save_resources_document_def
        set_workspace_name_document_def ensure_config_dir_def
        load_all_resources_cases example_fs_def example_cache_def example_resources_def
        category_map_def ws_entry_def group_h100_def group_h100_spot_def)

section \<open>Loading\<close>

text \<open>
  What the loaders do tolerate: a file that is missing, cannot be opened or read, or holds
  text that does not parse gives the default, provided for \<^verbatim>\<open>load_config\<close> that the
  directory can be created. What they let through besides the decoding error: the error of
  the test whether the file exists, which stands before the \<^verbatim>\<open>try\<close> block.
\<close>

lemma loaders_fall_back_on_unparsable_text:
  "(CONFIG_DIR s = Usable \<and> CONFIG_FILE s \<in> {Missing, Unreadable, Corrupt} \<longrightarrow>
      load_config s = Inr (JObj DEFAULT_CONFIG)) \<and>
   (RESOURCES_FILE s \<in> {Missing, Unreadable, Corrupt} \<longrightarrow>
      load_all_resources s = Inr (JObj [])) \<and>
   (COOKIE_FILE s \<in> {Missing, Unreadable, Corrupt} \<longrightarrow> get_cookie s = Inr None) \<and>
   load_all_resources s \<noteq> Inl JSONDecodeError \<and>
   get_cookie s \<noteq> Inl JSONDecodeError"
  by (cases "CONFIG_FILE s"; cases "RESOURCES_FILE s"; cases "COOKIE_FILE s")
     (auto simp: load_config_def load_all_resources_def get_cookie_def ensure_config_dir_def
           caught_def)

lemma loaders_raise_on_inaccessible_file:
  "(RESOURCES_FILE s = Inaccessible \<longrightarrow> load_all_resources s = Inl IOError) \<and>
   (COOKIE_FILE s = Inaccessible \<longrightarrow> get_cookie s = Inl IOError) \<and>
   (CONFIG_FILE s = Inaccessible \<longrightarrow> load_config s = Inl IOError) \<and>
   (TOKEN_CACHE_FILE s = Inaccessible \<longrightarrow> get_token_cache float_add s now = Inl IOError)"
  by (cases "CONFIG_DIR s")
     (simp_all add: load_config_def load_all_resources_def get_cookie_def get_token_cache_def
        ensure_config_dir_def)

text \<open>
  C4 fails on the code. A file whose bytes are not UTF-8 text, which is what corrupt content
  is when a document with a non-ASCII name was cut short inside a character, makes
  \<^verbatim>\<open>load_all_resources\<close>, \<^verbatim>\<open>get_cookie\<close> and \<^verbatim>\<open>load_config\<close> raise
  \<open>UnicodeDecodeError\<close>: the \<^verbatim>\<open>except\<close> clause of each names
  \<open>JSONDecodeError\<close> and \<open>IOError\<close> only. An interrupted
  \<^verbatim>\<open>save_resources\<close> leaves such a file. And \<^verbatim>\<open>load_config\<close> with a missing file
  lets the I/O error of \<^verbatim>\<open>ensure_config_dir\<close> through when the directory cannot be
  created, the call being outside its \<^verbatim>\<open>try\<close> block.
\<close>

theorem loaders_raise_on_undecodable_file:
  "RESOURCES_FILE (snd (save_resources ''ws-2'' example_resources accented_name 30
         (WriteFails InsideCharacter) example_fs)) = Undecodable \<and>
   load_all_resources (snd (save_resources ''ws-2'' example_resources accented_name 30
         (WriteFails InsideCharacter) example_fs)) = Inl UnicodeDecodeError \<and>
   load_all_resources cut_short_fs = Inl UnicodeDecodeError \<and>
   get_cookie cut_short_fs = Inl UnicodeDecodeError \<and>
   load_config cut_short_fs = Inl UnicodeDecodeError \<and>
   CONFIG_FILE blocked_fs = Missing \<and>
   load_config blocked_fs = Inl IOError"
  by (simp add: save_resources_def save_resources_document_def ensure_config_dir_def
        load_all_resources_def get_cookie_def load_config_def caught_def
        cut_short_fs_def blocked_fs_def example_fs_def example_cache_def example_resources_def
        category_map_def ws_entry_def group_h100_def group_h100_spot_def accented_name_def)

text \<open>
  C10, as the code has it. For every current time, \<^verbatim>\<open>get_token_cache\<close> returns a token
  record exactly when the cache file holds that record, a JSON object whose expiry time is a
  number (0 when it has none, 0 or 1 for a boolean), and the expiry time exceeds the sum of
  the current time and 300 seconds as the code computes it. When the file is missing,
  cannot be opened or read or holds text that does not parse, and when the token expires
  within 300 seconds (the bound included), it returns no value. On a file that holds
  anything else it raises: \<open>AttributeError\<close> for a value that is not an object,
  \<open>TypeError\<close> for an object whose expiry time is a string, a list, an object or
  \<^verbatim>\<open>null\<close>.
\<close>

theorem get_token_cache_expiry_buffer:
  "(get_token_cache float_add s now = Inr (Some c) \<longleftrightarrow>
      TOKEN_CACHE_FILE s = Doc c \<and> (\<exists>t. expiry c = Some t \<and> t > float_add now 300)) \<and>
   (TOKEN_CACHE_FILE s \<in> {Missing, Unreadable, Corrupt} \<longrightarrow>
      get_token_cache float_add s now = Inr None) \<and>
   (\<forall>t. TOKEN_CACHE_FILE s = Doc c \<and> expiry c = Some t \<and> t \<le> float_add now 300 \<longrightarrow>
      get_token_cache float_add s now = Inr None) \<and>
   (TOKEN_CACHE_FILE s = Doc c \<and> \<not> is_dict c \<longrightarrow>
      get_token_cache float_add s now = Inl AttributeError) \<and>
   (TOKEN_CACHE_FILE s = Doc c \<and> is_dict c \<and> expiry c = None \<longrightarrow>
      get_token_cache float_add s now = Inl TypeError)"
proof -
  have doc: "get_token_cache float_add s now =
      (case expiry d of
         None \<Rightarrow> if is_dict d then Inl TypeError else Inl AttributeError
       | Some t \<Rightarrow> if t > float_add now 300 then Inr (Some d) else Inr None)"
    if "TOKEN_CACHE_FILE s = Doc d" for d
  proof (cases d)
    case (JObj f)
    show ?thesis
    proof (cases "map_of f ''expires_at''")
      case None
      with that JObj show ?thesis
        by (simp add: get_token_cache_def expiry_def is_dict_def)
    next
      case (Some v)
      with that JObj show ?thesis
        by (cases v) (simp_all add: get_token_cache_def expiry_def is_dict_def)
    qed
  qed (insert that, simp_all add: get_token_cache_def expiry_def is_dict_def)
  have dict: "is_dict d" if "expiry d = Some t" for d t
    using that by (cases d) (simp_all add: expiry_def is_dict_def)
  show ?thesis
  proof (cases "TOKEN_CACHE_FILE s")
    case (Doc d)
    show ?thesis
    proof (cases "expiry d")
      case None
      with Doc doc [OF Doc] show ?thesis by auto
    next
      case (Some t)
      with Doc doc [OF Doc] dict [OF Some] show ?thesis by auto
    qed
  qed (simp_all add: get_token_cache_def caught_def)
qed

text \<open>
  The example token expires at 2000. At time 1699 the bound is 1999 and the record is
  returned; at time 1700 the bound is 2000 and it is not. On these integers the addition of
  floats is exact. A file that holds \<^verbatim>\<open>null\<close> and a record whose expiry time is a string
  make the call raise.
\<close>

theorem get_token_cache_expiry_buffer_witness:
  "TOKEN_CACHE_FILE example_fs = Doc (JObj [(''token'', JStr ''t0''), (''expires_at'', JNum 2000)]) \<and>
   expiry (JObj [(''token'', JStr ''t0''), (''expires_at'', JNum 2000)]) = Some 2000 \<and>
   (2000::real) > 1699 + 300 \<and>
   get_token_cache (+) example_fs 1699 =
     Inr (Some (JObj [(''token'', JStr ''t0''), (''expires_at'', JNum 2000)])) \<and>
   (2000::real) \<le> 1700 + 300 \<and>
   get_token_cache (+) example_fs 1700 = Inr None \<and>
   TOKEN_CACHE_FILE empty_fs \<in> {Missing, Unreadable, Corrupt} \<and>
   get_token_cache (+) empty_fs 0 = Inr None \<and>
   TOKEN_CACHE_FILE null_token_fs = Doc JNull \<and> \<not> is_dict JNull \<and>
   get_token_cache (+) null_token_fs 0 = Inl AttributeError \<and>
   TOKEN_CACHE_FILE text_expiry_fs =
     Doc (JObj [(''token'', JStr ''t0''), (''expires_at'', JStr ''2030-01-01'')]) \<and>
   is_dict (JObj [(''token'', JStr ''t0''), (''expires_at'', JStr ''2030-01-01'')]) \<and>
   expiry (JObj [(''token'', JStr ''t0''), (''expires_at'', JStr ''2030-01-01'')]) = None \<and>
   get_token_cache (+) text_expiry_fs 0 = Inl TypeError"
  using get_token_cache_expiry_buffer
          [of "(+)" example_fs 1699 "JObj [(''token'', JStr ''t0''), (''expires_at'', JNum 2000)]"]
        get_token_cache_expiry_buffer
          [of "(+)" example_fs 1700 "JObj [(''token'', JStr ''t0''), (''expires_at'', JNum 2000)]"]
        get_token_cache_expiry_buffer [of "(+)" empty_fs 0]
        get_token_cache_expiry_buffer [of "(+)" null_token_fs 0 JNull]
        get_token_cache_expiry_buffer
          [of "(+)" text_expiry_fs 0
              "JObj [(''token'', JStr ''t0''), (''expires_at'', JStr ''2030-01-01'')]"]
  by (simp add: example_fs_def empty_fs_def null_token_fs_def text_expiry_fs_def expiry_def
        is_dict_def)

text \<open>
  C10, as stated, fails: the claim covers every state of the file, and a file that holds a
  JSON list is neither missing nor unparsable, and has no expiry time that exceeds
  anything; \<^verbatim>\<open>get_token_cache\<close> does not return no value on it, it raises.
\<close>

theorem get_token_cache_counterexample:
  "TOKEN_CACHE_FILE list_token_fs = Doc (JArr []) \<and>
   expiry (JArr []) = None \<and>
   get_token_cache (+) list_token_fs 0 = Inl AttributeError \<and>
   get_token_cache (+) list_token_fs 0 \<noteq> Inr None"
  by (simp add: get_token_cache_def list_token_fs_def expiry_def)

section \<open>The cookie\<close>

text \<open>
  C9. When \<^verbatim>\<open>save_cookie\<close> returns, \<^verbatim>\<open>get_cookie\<close> yields the record just saved: its
  cookie and workspace fields are the arguments of the call, and the document holds nothing
  else than the three fields the call wrote, whatever cookie was stored before.
\<close>

theorem save_cookie_then_get_cookie:
  assumes "fst (save_cookie cookie workspace_id now ft s) = Inr ()"
  shows "\<exists>saved.
           get_cookie (snd (save_cookie cookie workspace_id now ft s)) = Inr (Some saved) \<and>
           saved = JObj [(''cookie'', JStr cookie), (''workspace_id'', JStr workspace_id),
                         (''saved_at'', JNum now)] \<and>
           field saved ''cookie'' JNull = JStr cookie \<and>
           field saved ''workspace_id'' JNull = JStr workspace_id"
proof (cases ft)
  case NoFault
  with assms show ?thesis
    by (cases "CONFIG_DIR s")
       (simp_all add: save_cookie_def get_cookie_def ensure_config_dir_def field_def)
next
  case OpenFails
  with assms show ?thesis
    by (cases "CONFIG_DIR s") (simp_all add: save_cookie_def ensure_config_dir_def)
next
  case (WriteFails c)
  with assms show ?thesis
    by (cases c; cases "CONFIG_DIR s") (simp_all add: save_cookie_def ensure_config_dir_def)
qed

theorem save_cookie_then_get_cookie_witness:
  "fst (save_cookie ''sid=42'' ''ws-2'' 5 NoFault example_fs) = Inr () \<and>
   (\<exists>saved.
      get_cookie (snd (save_cookie ''sid=42'' ''ws-2'' 5 NoFault example_fs)) = Inr (Some saved) \<and>
      field saved ''cookie'' JNull = JStr ''sid=42'' \<and>
      field saved ''workspace_id'' JNull = JStr ''ws-2'') \<and>
   get_cookie example_fs =
     Inr (Some (JObj [(''cookie'', JStr ''old''), (''workspace_id'', JStr ''ws-0''),
                      (''saved_at'', JNum 1)]))"
proof -
  have h: "fst (save_cookie ''sid=42'' ''ws-2'' 5 NoFault example_fs) = Inr ()"
    by (simp add: save_cookie_def ensure_config_dir_def example_fs_def)
  have g: "get_cookie example_fs =
     Inr (Some (JObj [(''cookie'', JStr ''old''), (''workspace_id'', JStr ''ws-0''),
                      (''saved_at'', JNum 1)]))"
    by (simp add: get_cookie_def example_fs_def)
  from save_cookie_then_get_cookie [OF h] h g show ?thesis by blast
qed

section \<open>Name resolution\<close>

lemma py_get_name_named_record:
  "named_record e \<Longrightarrow> py_get e ''name'' (JStr '''') = Inr (JStr (alias_of e))"
  by (auto simp: named_record_def alias_of_def split: json.splits option.splits)

lemma ws_exact_pass_find:
  "list_all named_record (map snd kvs) \<Longrightarrow>
   ws_exact_pass q kvs =
     Inr (map_option fst (find (\<lambda>c. snd c = q) (map (\<lambda>kv. (fst kv, alias_of (snd kv))) kvs)))"
  by (induction kvs) (auto simp: py_get_name_named_record)

lemma ws_fuzzy_pass_find:
  "list_all named_record (map snd kvs) \<Longrightarrow>
   ws_fuzzy_pass str_lower q kvs =
     Inr (map_option fst (find (\<lambda>c. str_in (str_lower q) (str_lower (snd c)))
            (map (\<lambda>kv. (fst kv, alias_of (snd kv))) kvs)))"
  by (induction kvs) (auto simp: py_get_name_named_record)

lemma res_exact_pass_find:
  "list_all named_record (map snd kvs) \<Longrightarrow>
   res_exact_pass q kvs =
     Inr (map_option fst (find (\<lambda>c. snd c = q) (map (\<lambda>kv. (snd kv, alias_of (snd kv))) kvs)))"
  by (induction kvs) (auto simp: py_get_name_named_record)

lemma res_fuzzy_pass_find:
  "list_all named_record (map snd kvs) \<Longrightarrow>
   res_fuzzy_pass str_lower q kvs =
     Inr (map_option fst (find (\<lambda>c. str_in (str_lower q) (str_lower (snd c)))
            (map (\<lambda>kv. (snd kv, alias_of (snd kv))) kvs)))"
  by (induction kvs) (auto simp: py_get_name_named_record)

lemma two_pass_map_option:
  "two_pass str_lower q cands =
     (case map_option fst (find (\<lambda>c. snd c = q) cands) of
        Some r \<Rightarrow> Some r
      | None \<Rightarrow> map_option fst (find (\<lambda>c. str_in (str_lower q) (str_lower (snd c))) cands))"
  by (simp add: two_pass_def split: option.splits)

text \<open>
  C2. On a cache whose entries are named records, \<^verbatim>\<open>find_workspace_by_name\<close> is the
  two-pass resolution over the aliases in iteration order: the id of the first workspace
  whose alias equals the query, case-sensitively; only when no alias equals it, the id of the
  first workspace whose alias contains the query when both are lower-cased; no result when
  neither pass matches. A missing or unparsable cache file is the empty cache. The statement
  holds whatever the table of \<^verbatim>\<open>str.lower()\<close> is.
\<close>

theorem find_workspace_by_name_two_pass:
  assumes "load_all_resources s = Inr (JObj cache)"
    and "list_all named_record (map snd cache)"
  shows "find_workspace_by_name str_lower s q =
           Inr (two_pass str_lower q (map (\<lambda>kv. (fst kv, alias_of (snd kv))) cache))"
  using assms
  by (simp add: find_workspace_by_name_def ws_exact_pass_find ws_fuzzy_pass_find
        two_pass_map_option split: option.splits)

lemma example_cache_named: "list_all named_record (map snd example_cache)"
  by (simp add: example_cache_def ws_entry_def named_record_def)

lemma example_fs_cache: "load_all_resources example_fs = Inr (JObj example_cache)"
  by (simp add: load_all_resources_cases example_fs_def)

lemma example_aliases:
  "map (\<lambda>kv. (fst kv, alias_of (snd kv))) example_cache =
     [(''ws-1'', ''gpu-team-backup''), (''ws-2'', ''GPU-Team'')]"
  by (simp add: example_cache_def ws_entry_def alias_of_def)

lemma two_pass_example_exact:
  "two_pass ascii_lower ''GPU-Team'' [(''ws-1'', ''gpu-team-backup''), (''ws-2'', ''GPU-Team'')] = Some ''ws-2''"
  by code_simp

lemma two_pass_example_fuzzy:
  "two_pass ascii_lower ''Team'' [(''ws-1'', ''gpu-team-backup''), (''ws-2'', ''GPU-Team'')] = Some ''ws-1''"
  by code_simp

lemma two_pass_example_none:
  "two_pass ascii_lower ''cpu'' [(''ws-1'', ''gpu-team-backup''), (''ws-2'', ''GPU-Team'')] = None"
  by code_simp

text \<open>
  The example of the specification: the aliases \<open>gpu-team-backup\<close> and
  \<open>GPU-Team\<close> are cached, the containing one first. The query \<open>GPU-Team\<close> returns
  the workspace whose alias equals it, \<open>Team\<close> the first one that contains it.
\<close>

theorem find_workspace_by_name_two_pass_witness:
  "load_all_resources example_fs = Inr (JObj example_cache) \<and>
   list_all named_record (map snd example_cache) \<and>
   map (\<lambda>kv. (fst kv, alias_of (snd kv))) example_cache =
     [(''ws-1'', ''gpu-team-backup''), (''ws-2'', ''GPU-Team'')] \<and>
   find_workspace_by_name ascii_lower example_fs ''GPU-Team'' = Inr (Some ''ws-2'') \<and>
   find_workspace_by_name ascii_lower example_fs ''Team'' = Inr (Some ''ws-1'') \<and>
   find_workspace_by_name ascii_lower example_fs ''cpu'' = Inr None"
  using find_workspace_by_name_two_pass
          [OF example_fs_cache example_cache_named, where str_lower = ascii_lower]
  by (simp add: example_fs_cache example_cache_named example_aliases
        two_pass_example_exact two_pass_example_fuzzy two_pass_example_none)

text \<open>
  C7. \<^verbatim>\<open>find_resource_by_name\<close> is the same two-pass resolution, over the records of the
  one category of the one workspace and nothing else: the first record whose name equals the
  query, failing that the first whose lower-cased name contains the lower-cased query,
  failing that no result; and no result when the workspace has no cache entry. The statement
  holds whatever the table of \<^verbatim>\<open>str.lower()\<close> is.
\<close>

theorem find_resource_by_name_two_pass:
  assumes "load_all_resources s = Inr (JObj cache)"
    and "cached_category cache workspace_id category"
  shows "find_resource_by_name str_lower s workspace_id category q =
           Inr (two_pass str_lower q (map (\<lambda>kv. (snd kv, alias_of (snd kv)))
                  (category_items cache workspace_id category))) \<and>
         (map_of cache workspace_id = None \<longrightarrow>
            find_resource_by_name str_lower s workspace_id category q = Inr None)"
proof (cases "map_of cache workspace_id")
  case None
  with assms show ?thesis
    by (simp add: find_resource_by_name_def get_workspace_resources_def category_items_def
          two_pass_def)
next
  case (Some e)
  with assms(2) obtain entry where e: "e = JObj entry"
    by (auto simp: cached_category_def split: json.splits)
  show ?thesis
  proof (cases "map_of entry category")
    case None
    with assms Some e show ?thesis
      by (cases entry)
         (simp_all add: find_resource_by_name_def get_workspace_resources_def
            category_items_def two_pass_def)
  next
    case (Some c)
    with assms(2) \<open>map_of cache workspace_id = Some e\<close> e
    obtain items where c: "c = JObj items" and n: "list_all named_record (map snd items)"
      by (auto simp: cached_category_def split: json.splits)
    from Some have "entry \<noteq> []" by auto
    with assms(1) \<open>map_of cache workspace_id = Some e\<close> e Some c n show ?thesis
      by (simp add: find_resource_by_name_def get_workspace_resources_def category_items_def
            res_exact_pass_find res_fuzzy_pass_find two_pass_map_option split: option.splits)
  qed
qed

lemma example_category:
  "category_items example_cache ''ws-1'' ''compute_groups'' =
     [(''lcg-2'', group_h100_spot), (''lcg-1'', group_h100)]"
  by (simp add: category_items_def example_cache_def ws_entry_def)

lemma example_cached_category:
  "cached_category example_cache ''ws-1'' ''compute_groups''"
  by (simp add: cached_category_def example_cache_def ws_entry_def named_record_def
        group_h100_def group_h100_spot_def)

lemma example_cached_category_absent:
  "cached_category example_cache ''ws-9'' ''compute_groups''"
  by (simp add: cached_category_def example_cache_def)

lemma example_group_names:
  "map (\<lambda>kv. (snd kv, alias_of (snd kv))) [(''lcg-2'', group_h100_spot), (''lcg-1'', group_h100)]
     = [(group_h100_spot, ''h100-spot''), (group_h100, ''H100'')]"
  by (simp add: alias_of_def group_h100_def group_h100_spot_def)

lemma lower_h100: "ascii_lower ''H100'' = ''h100''" "ascii_lower ''h100-spot'' = ''h100-spot''"
  "ascii_lower ''h100'' = ''h100''" "ascii_lower ''SPOT'' = ''spot''"
  by code_simp+

lemma two_pass_groups_exact:
  "two_pass ascii_lower ''H100'' [(a, ''h100-spot''), (b, ''H100'')] = Some b"
  by (simp add: two_pass_def)

lemma two_pass_groups_fuzzy:
  "two_pass ascii_lower ''h100'' [(a, ''h100-spot''), (b, ''H100'')] = Some a"
  by (simp add: two_pass_def lower_h100)

lemma two_pass_groups_folded:
  "two_pass ascii_lower ''SPOT'' [(a, ''h100-spot''), (b, ''H100'')] = Some a"
  by (simp add: two_pass_def lower_h100)

text \<open>
  The groups \<open>h100-spot\<close> and \<open>H100\<close> are cached in this order. \<open>H100\<close> finds
  the group of that name although the first one contains it when lower-cased;
  \<open>h100\<close> equals no name and finds the first group that contains it; \<open>SPOT\<close>
  occurs in a name only once it is lower-cased.
\<close>

theorem find_resource_by_name_two_pass_witness:
  "load_all_resources example_fs = Inr (JObj example_cache) \<and>
   cached_category example_cache ''ws-1'' ''compute_groups'' \<and>
   category_items example_cache ''ws-1'' ''compute_groups'' =
     [(''lcg-2'', group_h100_spot), (''lcg-1'', group_h100)] \<and>
   find_resource_by_name ascii_lower example_fs ''ws-1'' ''compute_groups'' ''H100'' = Inr (Some group_h100) \<and>
   find_resource_by_name ascii_lower example_fs ''ws-1'' ''compute_groups'' ''h100'' = Inr (Some group_h100_spot) \<and>
   find_resource_by_name ascii_lower example_fs ''ws-1'' ''compute_groups'' ''SPOT'' = Inr (Some group_h100_spot) \<and>
   cached_category example_cache ''ws-9'' ''compute_groups'' \<and>
   map_of example_cache ''ws-9'' = None \<and>
   find_resource_by_name ascii_lower example_fs ''ws-9'' ''compute_groups'' ''H100'' = Inr None"
proof -
  have 1: "find_resource_by_name ascii_lower example_fs ''ws-1'' ''compute_groups'' ''H100'' = Inr (Some group_h100)"
    using find_resource_by_name_two_pass
            [OF example_fs_cache example_cached_category,
             where q = "''H100''" and str_lower = ascii_lower]
    by (simp only: example_category example_group_names two_pass_groups_exact)
  have 2: "find_resource_by_name ascii_lower example_fs ''ws-1'' ''compute_groups'' ''h100'' = Inr (Some group_h100_spot)"
    using find_resource_by_name_two_pass
            [OF example_fs_cache example_cached_category,
             where q = "''h100''" and str_lower = ascii_lower]
    by (simp only: example_category example_group_names two_pass_groups_fuzzy)
  have 5: "find_resource_by_name ascii_lower example_fs ''ws-1'' ''compute_groups'' ''SPOT'' = Inr (Some group_h100_spot)"
    using find_resource_by_name_two_pass
            [OF example_fs_cache example_cached_category,
             where q = "''SPOT''" and str_lower = ascii_lower]
    by (simp only: example_category example_group_names two_pass_groups_folded)

  have 3: "map_of example_cache ''ws-9'' = None"
    by (simp add: example_cache_def)
  have 4: "find_resource_by_name ascii_lower example_fs ''ws-9'' ''compute_groups'' ''H100'' = Inr None"
    using find_resource_by_name_two_pass
            [OF example_fs_cache example_cached_category_absent,
             where q = "''H100''" and str_lower = ascii_lower] 3
    by blast
  from 1 2 3 4 5 example_fs_cache example_cached_category example_category
    example_cached_category_absent
  show ?thesis by blast
qed

section \<open>Saving resources\<close>

lemma find_append_case:
  "find P (xs @ ys) = (case find P xs of Some x \<Rightarrow> Some x | None \<Rightarrow> find P ys)"
  by (induction xs) simp_all

lemma py_getitem_id_of:
  "id_of p = Some i \<Longrightarrow> py_getitem p ''id'' = Inr (JStr i)"
  by (auto simp: id_of_def split: json.splits option.splits)

lemma by_id_Cons:
  "by_id (p # ps) i =
     (case by_id ps i of Some q \<Rightarrow> Some q | None \<Rightarrow> if id_of p = Some i then Some p else None)"
  by (simp add: by_id_def find_append_case split: option.splits)

lemma keyed_by_id_by_id:
  "list_all (\<lambda>p. id_of p \<noteq> None) ps \<Longrightarrow>
   \<exists>m. keyed_by_id acc ps = Inr m \<and>
       (\<forall>i. map_of m i = (case by_id ps i of Some p \<Rightarrow> Some p | None \<Rightarrow> map_of acc i))"
proof (induction ps arbitrary: acc)
  case Nil
  then show ?case by (simp add: by_id_def)
next
  case (Cons p ps)
  then obtain i0 where i0: "id_of p = Some i0" by auto
  from Cons.prems have "list_all (\<lambda>p. id_of p \<noteq> None) ps" by simp
  from Cons.IH [OF this, of "AList.update i0 p acc"] obtain m where
    m: "keyed_by_id (AList.update i0 p acc) ps = Inr m"
       "\<And>i. map_of m i =
          (case by_id ps i of Some q \<Rightarrow> Some q | None \<Rightarrow> map_of (AList.update i0 p acc) i)"
    by blast
  have "keyed_by_id acc (p # ps) = Inr m"
    using m(1) by (simp add: py_getitem_id_of [OF i0])
  moreover have "map_of m i =
      (case by_id (p # ps) i of Some q \<Rightarrow> Some q | None \<Rightarrow> map_of acc i)" for i
    using i0 by (simp add: m(2) by_id_Cons update_conv' split: option.splits)
  ultimately show ?case by blast
qed

lemma category_map_by_id:
  assumes "resource_lists resources"
    and "category \<in> {''projects'', ''compute_groups'', ''specs''}"
  shows "\<exists>m. category_map resources category = Inr (JObj m) \<and>
             map_of m = by_id (category_list resources category)"
proof -
  from assms(1) obtain r where r: "resources = JObj r"
    by (auto simp: resource_lists_def split: json.splits)
  from assms r have wf: "case map_of r category of None \<Rightarrow> True
      | Some (JArr ps) \<Rightarrow> list_all (\<lambda>p. id_of p \<noteq> None) ps | _ \<Rightarrow> False"
    by (auto simp: resource_lists_def)
  show ?thesis
  proof (cases "map_of r category")
    case None
    with r show ?thesis
      by (auto simp: category_map_def category_list_def by_id_def)
  next
    case (Some l)
    with wf obtain ps where l: "l = JArr ps" and ids: "list_all (\<lambda>p. id_of p \<noteq> None) ps"
      by (auto split: json.splits)
    from keyed_by_id_by_id [OF ids, of "[]"] obtain m where
      m: "keyed_by_id [] ps = Inr m"
         "\<forall>i. map_of m i = (case by_id ps i of Some p \<Rightarrow> Some p | None \<Rightarrow> map_of [] i)"
      by blast
    from m(2) have "map_of m = by_id ps"
      by (auto simp: fun_eq_iff split: option.splits)
    with r Some l m(1) show ?thesis
      by (simp add: category_map_def category_list_def)
  qed
qed

text \<open>
  C3. When the directory is there and the write succeeds, \<^verbatim>\<open>save_resources\<close> stores for the workspace an entry made
  of its id, the three maps built from the lists passed in (each record under its own
  identifier, a later record replacing an earlier one with the same identifier), the current
  time, and the alias: the name passed in when it is not empty, otherwise the name stored
  before (empty when there was none). Nothing of the old maps is kept, and the other
  workspaces' entries are as they were.
\<close>

theorem save_resources_replaces_entry:
  assumes "load_all_resources s = Inr (JObj cache)"
    and "resource_lists resources"
    and "nm = [] \<longrightarrow> (\<forall>e. map_of cache workspace_id = Some e \<longrightarrow> is_dict e)"
    and "CONFIG_DIR s = Usable"
  shows "\<exists>projects compute_groups specs.
           save_resources workspace_id resources nm now NoFault s =
             (Inr (),
              s\<lparr>RESOURCES_FILE := Doc (JObj (AList.update workspace_id
                  (JObj [(''id'', JStr workspace_id),
                         (''name'',
                            if nm \<noteq> [] then JStr nm
                            else (case map_of cache workspace_id of
                                    None \<Rightarrow> JStr ''''
                                  | Some old \<Rightarrow> field old ''name'' (JStr ''''))),
                         (''projects'', JObj projects),
                         (''compute_groups'', JObj compute_groups),
                         (''specs'', JObj specs),
                         (''updated_at'', JNum now)]) cache))\<rparr>) \<and>
           map_of projects = by_id (category_list resources ''projects'') \<and>
           map_of compute_groups = by_id (category_list resources ''compute_groups'') \<and>
           map_of specs = by_id (category_list resources ''specs'')"
proof -
  from category_map_by_id [OF assms(2), of "''projects''"] obtain P where
    P: "category_map resources ''projects'' = Inr (JObj P)"
       "map_of P = by_id (category_list resources ''projects'')" by auto
  from category_map_by_id [OF assms(2), of "''compute_groups''"] obtain G where
    G: "category_map resources ''compute_groups'' = Inr (JObj G)"
       "map_of G = by_id (category_list resources ''compute_groups'')" by auto
  from category_map_by_id [OF assms(2), of "''specs''"] obtain S where
    S: "category_map resources ''specs'' = Inr (JObj S)"
       "map_of S = by_id (category_list resources ''specs'')" by auto
  have nm: "(if nm \<noteq> [] then Inr (JStr nm)
             else bind_exn (py_get (JObj cache) workspace_id (JObj [])) (\<lambda>old.
                    py_get old ''name'' (JStr ''''))) =
            Inr (if nm \<noteq> [] then JStr nm
                 else (case map_of cache workspace_id of
                         None \<Rightarrow> JStr ''''
                       | Some old \<Rightarrow> field old ''name'' (JStr '''')))"
  proof (cases "nm = []")
    case False
    then show ?thesis by simp
  next
    case True
    show ?thesis
    proof (cases "map_of cache workspace_id")
      case None
      with True show ?thesis by simp
    next
      case (Some old)
      with assms(3) True obtain f where "old = JObj f"
        by (auto simp: is_dict_def split: json.splits)
      with True Some show ?thesis
        by (simp add: field_def split: option.splits)
    qed
  qed
  have "save_resources_document s workspace_id resources nm now =
          Inr (JObj (AList.update workspace_id
                  (JObj [(''id'', JStr workspace_id),
                         (''name'',
                            if nm \<noteq> [] then JStr nm
                            else (case map_of cache workspace_id of
                                    None \<Rightarrow> JStr ''''
                                  | Some old \<Rightarrow> field old ''name'' (JStr ''''))),
                         (''projects'', JObj P),
                         (''compute_groups'', JObj G),
                         (''specs'', JObj S),
                         (''updated_at'', JNum now)]) cache))"
    unfolding save_resources_document_def assms(1) bind_exn_Inr nm P(1) G(1) S(1)
    by simp
  then have "save_resources workspace_id resources nm now NoFault s =
             (Inr (),
              s\<lparr>RESOURCES_FILE := Doc (JObj (AList.update workspace_id
                  (JObj [(''id'', JStr workspace_id),
                         (''name'',
                            if nm \<noteq> [] then JStr nm
                            else (case map_of cache workspace_id of
                                    None \<Rightarrow> JStr ''''
                                  | Some old \<Rightarrow> field old ''name'' (JStr ''''))),
                         (''projects'', JObj P),
                         (''compute_groups'', JObj G),
                         (''specs'', JObj S),
                         (''updated_at'', JNum now)]) cache))\<rparr>)"
    using assms(4) by (simp add: save_resources_def ensure_config_dir_def)
  with P(2) G(2) S(2) show ?thesis
    by (intro exI [of _ P] exI [of _ G] exI [of _ S] conjI)
qed



text \<open>
  C6. When the directory is there and the write succeeds, \<^verbatim>\<open>set_workspace_name\<close>
  returns \<^verbatim>\<open>True\<close>. A
  workspace without a cache entry gets a new one with the given name, empty maps and the
  current time; an existing entry gets the new name and keeps every other field, the
  update time included. The entries of all other workspaces are as they were.
\<close>

theorem set_workspace_name_changes_alias_only:
  assumes "load_all_resources s = Inr (JObj cache)"
    and "\<forall>e. map_of cache workspace_id = Some e \<longrightarrow> is_dict e"
    and "CONFIG_DIR s = Usable"
  shows "\<exists>cache'.
           set_workspace_name workspace_id nm now NoFault s =
             (Inr True, s\<lparr>RESOURCES_FILE := Doc (JObj cache')\<rparr>) \<and>
           (\<forall>w. w \<noteq> workspace_id \<longrightarrow> map_of cache' w = map_of cache w) \<and>
           (map_of cache workspace_id = None \<longrightarrow>
              map_of cache' workspace_id =
                Some (JObj [(''id'', JStr workspace_id), (''name'', JStr nm),
                            (''projects'', JObj []), (''compute_groups'', JObj []),
                            (''specs'', JObj []), (''updated_at'', JNum now)])) \<and>
           (\<forall>entry. map_of cache workspace_id = Some (JObj entry) \<longrightarrow>
              (\<exists>entry'. map_of cache' workspace_id = Some (JObj entry') \<and>
                 map_of entry' ''name'' = Some (JStr nm) \<and>
                 (\<forall>k. k \<noteq> ''name'' \<longrightarrow> map_of entry' k = map_of entry k)))"
proof (cases "map_of cache workspace_id")
  case None
  let ?new = "JObj [(''id'', JStr workspace_id), (''name'', JStr nm),
                    (''projects'', JObj []), (''compute_groups'', JObj []),
                    (''specs'', JObj []), (''updated_at'', JNum now)]"
  have "set_workspace_name workspace_id nm now NoFault s =
          (Inr True, s\<lparr>RESOURCES_FILE := Doc (JObj (AList.update workspace_id ?new cache))\<rparr>)"
    using assms(1,3) None
    by (simp add: set_workspace_name_def set_workspace_name_document_def ensure_config_dir_def)
  with None show ?thesis
    by (intro exI [of _ "AList.update workspace_id ?new cache"]) (simp add: update_conv')
next
  case (Some e)
  with assms(2) obtain entry where e: "e = JObj entry"
    by (auto simp: is_dict_def split: json.splits)
  let ?entry' = "AList.update ''name'' (JStr nm) entry"
  have "set_workspace_name workspace_id nm now NoFault s =
          (Inr True,
           s\<lparr>RESOURCES_FILE := Doc (JObj (AList.update workspace_id (JObj ?entry') cache))\<rparr>)"
    using assms(1,3) Some e
    by (simp add: set_workspace_name_def set_workspace_name_document_def ensure_config_dir_def)
  note step = this
  show ?thesis
  proof (rule exI [of _ "AList.update workspace_id (JObj ?entry') cache"], intro conjI)
    show "set_workspace_name workspace_id nm now NoFault s =
          (Inr True,
           s\<lparr>RESOURCES_FILE := Doc (JObj (AList.update workspace_id (JObj ?entry') cache))\<rparr>)"
      by (fact step)
    show "\<forall>w. w \<noteq> workspace_id \<longrightarrow>
      map_of (AList.update workspace_id (JObj ?entry') cache) w = map_of cache w"
      by (simp add: update_conv')
    show "map_of cache workspace_id = None \<longrightarrow>
      map_of (AList.update workspace_id (JObj ?entry') cache) workspace_id =
        Some (JObj [(''id'', JStr workspace_id), (''name'', JStr nm),
                    (''projects'', JObj []), (''compute_groups'', JObj []),
                    (''specs'', JObj []), (''updated_at'', JNum now)])"
      using Some by simp
    show "\<forall>entry0. map_of cache workspace_id = Some (JObj entry0) \<longrightarrow>
      (\<exists>entry'. map_of (AList.update workspace_id (JObj ?entry') cache) workspace_id
                    = Some (JObj entry') \<and>
                 map_of entry' ''name'' = Some (JStr nm) \<and>
                 (\<forall>k. k \<noteq> ''name'' \<longrightarrow> map_of entry' k = map_of entry0 k))"
    proof (intro allI impI)
      fix entry0 assume "map_of cache workspace_id = Some (JObj entry0)"
      with Some e have eq: "entry0 = entry" by simp
      show "\<exists>entry'. map_of (AList.update workspace_id (JObj ?entry') cache) workspace_id
                    = Some (JObj entry') \<and>
                 map_of entry' ''name'' = Some (JStr nm) \<and>
                 (\<forall>k. k \<noteq> ''name'' \<longrightarrow> map_of entry' k = map_of entry0 k)"
        unfolding eq
        by (rule exI [of _ ?entry']) (simp add: update_conv')
    qed
  qed
qed

lemma example_fs_usable: "CONFIG_DIR example_fs = Usable"
  by (simp add: example_fs_def)

lemma example_resources_lists: "resource_lists example_resources"
  by (simp add: resource_lists_def example_resources_def id_of_def group_h100_def
        group_h100_spot_def)

lemma example_ws2: "map_of example_cache ''ws-2'' = Some (ws_entry ''ws-2'' ''GPU-Team'' [] 20)"
  by (simp add: example_cache_def)

lemma example_ws2_dict: "\<forall>e. map_of example_cache ''ws-2'' = Some e \<longrightarrow> is_dict e"
  by (simp add: example_ws2 ws_entry_def is_dict_def)

lemma example_ws2_is_dict: "is_dict (ws_entry ''ws-2'' ''GPU-Team'' [] 20)"
  by (simp add: ws_entry_def is_dict_def)

lemma example_ws2_alias: "field (ws_entry ''ws-2'' ''GPU-Team'' [] 20) ''name'' (JStr []) = JStr ''GPU-Team''"
  by (simp add: field_def ws_entry_def)

lemma example_groups_by_id:
  "by_id (category_list example_resources ''compute_groups'') ''lcg-1'' = Some group_h100"
  by (simp add: by_id_def category_list_def example_resources_def id_of_def group_h100_def
        group_h100_spot_def)

theorem save_resources_replaces_entry_witness:
  "CONFIG_DIR example_fs = Usable \<and>
   load_all_resources example_fs = Inr (JObj example_cache) \<and>
   resource_lists example_resources \<and>
   map_of example_cache ''ws-2'' = Some (ws_entry ''ws-2'' ''GPU-Team'' [] 20) \<and>
   is_dict (ws_entry ''ws-2'' ''GPU-Team'' [] 20) \<and>
   (\<exists>projects compute_groups specs.
      save_resources ''ws-2'' example_resources [] 30 NoFault example_fs =
        (Inr (),
         example_fs\<lparr>RESOURCES_FILE := Doc (JObj (AList.update ''ws-2''
             (JObj [(''id'', JStr ''ws-2''), (''name'', JStr ''GPU-Team''),
                    (''projects'', JObj projects), (''compute_groups'', JObj compute_groups),
                    (''specs'', JObj specs), (''updated_at'', JNum 30)]) example_cache))\<rparr>) \<and>
      map_of compute_groups ''lcg-1'' = Some group_h100) \<and>
   (\<exists>projects compute_groups specs.
      save_resources ''ws-2'' example_resources ''Beta'' 30 NoFault example_fs =
        (Inr (),
         example_fs\<lparr>RESOURCES_FILE := Doc (JObj (AList.update ''ws-2''
             (JObj [(''id'', JStr ''ws-2''), (''name'', JStr ''Beta''),
                    (''projects'', JObj projects), (''compute_groups'', JObj compute_groups),
                    (''specs'', JObj specs), (''updated_at'', JNum 30)]) example_cache))\<rparr>))"
proof -
  from save_resources_replaces_entry
         [OF example_fs_cache example_resources_lists _ example_fs_usable, of "[]" "''ws-2''" 30]
       example_ws2_dict
  obtain P G S where
    a: "save_resources ''ws-2'' example_resources [] 30 NoFault example_fs =
        (Inr (),
         example_fs\<lparr>RESOURCES_FILE := Doc (JObj (AList.update ''ws-2''
             (JObj [(''id'', JStr ''ws-2''), (''name'', JStr ''GPU-Team''),
                    (''projects'', JObj P), (''compute_groups'', JObj G),
                    (''specs'', JObj S), (''updated_at'', JNum 30)]) example_cache))\<rparr>)"
    and g: "map_of G = by_id (category_list example_resources ''compute_groups'')"
    by (auto simp: example_ws2 example_ws2_alias)
  from g have g': "map_of G ''lcg-1'' = Some group_h100"
    by (simp add: example_groups_by_id)
  from save_resources_replaces_entry
         [OF example_fs_cache example_resources_lists _ example_fs_usable,
          of "''Beta''" "''ws-2''" 30]
  obtain P' G' S' where
    b: "save_resources ''ws-2'' example_resources ''Beta'' 30 NoFault example_fs =
        (Inr (),
         example_fs\<lparr>RESOURCES_FILE := Doc (JObj (AList.update ''ws-2''
             (JObj [(''id'', JStr ''ws-2''), (''name'', JStr ''Beta''),
                    (''projects'', JObj P'), (''compute_groups'', JObj G'),
                    (''specs'', JObj S'), (''updated_at'', JNum 30)]) example_cache))\<rparr>)"
    by auto
  have first: "\<exists>projects compute_groups specs.
      save_resources ''ws-2'' example_resources [] 30 NoFault example_fs =
        (Inr (),
         example_fs\<lparr>RESOURCES_FILE := Doc (JObj (AList.update ''ws-2''
             (JObj [(''id'', JStr ''ws-2''), (''name'', JStr ''GPU-Team''),
                    (''projects'', JObj projects), (''compute_groups'', JObj compute_groups),
                    (''specs'', JObj specs), (''updated_at'', JNum 30)]) example_cache))\<rparr>) \<and>
      map_of compute_groups ''lcg-1'' = Some group_h100"
    by (rule exI [of _ P], rule exI [of _ G], rule exI [of _ S]) (simp only: a g' simp_thms)
  have second: "\<exists>projects compute_groups specs.
      save_resources ''ws-2'' example_resources ''Beta'' 30 NoFault example_fs =
        (Inr (),
         example_fs\<lparr>RESOURCES_FILE := Doc (JObj (AList.update ''ws-2''
             (JObj [(''id'', JStr ''ws-2''), (''name'', JStr ''Beta''),
                    (''projects'', JObj projects), (''compute_groups'', JObj compute_groups),
                    (''specs'', JObj specs), (''updated_at'', JNum 30)]) example_cache))\<rparr>)"
    by (rule exI [of _ P'], rule exI [of _ G'], rule exI [of _ S']) (rule b)
  from example_fs_usable example_fs_cache example_resources_lists example_ws2
    example_ws2_is_dict first second
  show ?thesis by (intro conjI)
qed

lemma example_ws9: "map_of example_cache ''ws-9'' = None"
  by (simp add: example_cache_def)

lemma example_ws9_dict: "\<forall>e. map_of example_cache ''ws-9'' = Some e \<longrightarrow> is_dict e"
  by (simp add: example_ws9)

lemma example_ws1: "map_of example_cache ''ws-1'' =
    Some (ws_entry ''ws-1'' ''gpu-team-backup''
            [(''lcg-2'', group_h100_spot), (''lcg-1'', group_h100)] 10)"
  by (simp add: example_cache_def)

theorem set_workspace_name_changes_alias_only_witness:
  "CONFIG_DIR example_fs = Usable \<and>
   load_all_resources example_fs = Inr (JObj example_cache) \<and>
   map_of example_cache ''ws-2'' = Some (ws_entry ''ws-2'' ''GPU-Team'' [] 20) \<and>
   is_dict (ws_entry ''ws-2'' ''GPU-Team'' [] 20) \<and>
   (\<exists>cache'.
      set_workspace_name ''ws-2'' ''Beta'' 30 NoFault example_fs =
        (Inr True, example_fs\<lparr>RESOURCES_FILE := Doc (JObj cache')\<rparr>) \<and>
      map_of cache' ''ws-1'' = map_of example_cache ''ws-1'' \<and>
      (\<exists>entry'. map_of cache' ''ws-2'' = Some (JObj entry') \<and>
         map_of entry' ''name'' = Some (JStr ''Beta'') \<and>
         map_of entry' ''updated_at'' = Some (JNum 20))) \<and>
   map_of example_cache ''ws-9'' = None \<and>
   (\<exists>cache'.
      set_workspace_name ''ws-9'' ''Gamma'' 30 NoFault example_fs =
        (Inr True, example_fs\<lparr>RESOURCES_FILE := Doc (JObj cache')\<rparr>) \<and>
      map_of cache' ''ws-9'' =
        Some (JObj [(''id'', JStr ''ws-9''), (''name'', JStr ''Gamma''),
                    (''projects'', JObj []), (''compute_groups'', JObj []),
                    (''specs'', JObj []), (''updated_at'', JNum 30)]))"
proof -
  from set_workspace_name_changes_alias_only
         [OF example_fs_cache example_ws2_dict example_fs_usable, of "''Beta''" 30]
  obtain c where c:
    "set_workspace_name ''ws-2'' ''Beta'' 30 NoFault example_fs =
       (Inr True, example_fs\<lparr>RESOURCES_FILE := Doc (JObj c)\<rparr>) \<and>
     (\<forall>w. w \<noteq> ''ws-2'' \<longrightarrow> map_of c w = map_of example_cache w) \<and>
     (map_of example_cache ''ws-2'' = None \<longrightarrow>
        map_of c ''ws-2'' =
          Some (JObj [(''id'', JStr ''ws-2''), (''name'', JStr ''Beta''),
                      (''projects'', JObj []), (''compute_groups'', JObj []),
                      (''specs'', JObj []), (''updated_at'', JNum 30)])) \<and>
     (\<forall>entry. map_of example_cache ''ws-2'' = Some (JObj entry) \<longrightarrow>
        (\<exists>entry'. map_of c ''ws-2'' = Some (JObj entry') \<and>
           map_of entry' ''name'' = Some (JStr ''Beta'') \<and>
           (\<forall>k. k \<noteq> ''name'' \<longrightarrow> map_of entry' k = map_of entry k)))" ..
  note c1 = c [THEN conjunct1]
  note c2 = c [THEN conjunct2, THEN conjunct1]
  note c3 = c [THEN conjunct2, THEN conjunct2, THEN conjunct2]
  from c2 have c2': "map_of c ''ws-1'' = map_of example_cache ''ws-1''" by simp
  from c3 [rule_format, OF example_ws2 [unfolded ws_entry_def]]
  obtain entry' where e:
    "map_of c ''ws-2'' = Some (JObj entry') \<and>
     map_of entry' ''name'' = Some (JStr ''Beta'') \<and>
     (\<forall>k. k \<noteq> ''name'' \<longrightarrow> map_of entry' k =
               map_of [(''id'', JStr ''ws-2''), (''name'', JStr ''GPU-Team''),
                       (''projects'', JObj []), (''compute_groups'', JObj []),
                       (''specs'', JObj []), (''updated_at'', JNum 20)] k)" ..
  note e1 = e [THEN conjunct1]
  note e2 = e [THEN conjunct2, THEN conjunct1]
  note e3 = e [THEN conjunct2, THEN conjunct2]
  from e3 have e3': "map_of entry' ''updated_at'' = Some (JNum 20)" by simp
  have first: "\<exists>cache'.
      set_workspace_name ''ws-2'' ''Beta'' 30 NoFault example_fs =
        (Inr True, example_fs\<lparr>RESOURCES_FILE := Doc (JObj cache')\<rparr>) \<and>
      map_of cache' ''ws-1'' = map_of example_cache ''ws-1'' \<and>
      (\<exists>entry'. map_of cache' ''ws-2'' = Some (JObj entry') \<and>
         map_of entry' ''name'' = Some (JStr ''Beta'') \<and>
         map_of entry' ''updated_at'' = Some (JNum 20))"
    using c1 c2' e1 e2 e3' by (intro exI [of _ c] conjI exI [of _ entry'])
  let ?new = "JObj [(''id'', JStr ''ws-9''), (''name'', JStr ''Gamma''),
                    (''projects'', JObj []), (''compute_groups'', JObj []),
                    (''specs'', JObj []), (''updated_at'', JNum 30)]"
  from set_workspace_name_changes_alias_only
         [OF example_fs_cache example_ws9_dict example_fs_usable, of "''Gamma''" 30]
  obtain d where d:
    "set_workspace_name ''ws-9'' ''Gamma'' 30 NoFault example_fs =
       (Inr True, example_fs\<lparr>RESOURCES_FILE := Doc (JObj d)\<rparr>) \<and>
     (\<forall>w. w \<noteq> ''ws-9'' \<longrightarrow> map_of d w = map_of example_cache w) \<and>
     (map_of example_cache ''ws-9'' = None \<longrightarrow> map_of d ''ws-9'' = Some ?new) \<and>
     (\<forall>entry. map_of example_cache ''ws-9'' = Some (JObj entry) \<longrightarrow>
        (\<exists>entry'. map_of d ''ws-9'' = Some (JObj entry') \<and>
           map_of entry' ''name'' = Some (JStr ''Gamma'') \<and>
           (\<forall>k. k \<noteq> ''name'' \<longrightarrow> map_of entry' k = map_of entry k)))" ..
  note d1 = d [THEN conjunct1]
  note d2 = d [THEN conjunct2, THEN conjunct2, THEN conjunct1]
  have second: "\<exists>cache'.
      set_workspace_name ''ws-9'' ''Gamma'' 30 NoFault example_fs =
        (Inr True, example_fs\<lparr>RESOURCES_FILE := Doc (JObj cache')\<rparr>) \<and>
      map_of cache' ''ws-9'' =
        Some (JObj [(''id'', JStr ''ws-9''), (''name'', JStr ''Gamma''),
                    (''projects'', JObj []), (''compute_groups'', JObj []),
                    (''specs'', JObj []), (''updated_at'', JNum 30)])"
    using d1 d2 [rule_format, OF example_ws9] by (intro exI [of _ d] conjI)
  from example_fs_usable example_fs_cache example_ws2 example_ws2_is_dict first example_ws9
    second
  show ?thesis by (intro conjI)
qed

section \<open>Listing\<close>

lemma mset_sort_reverse: "mset (sort_reverse k xs) = mset xs"
  by (simp add: sort_reverse_def)

lemma sorted_sort_reverse: "sorted_wrt (\<lambda>a b. k a \<ge> k b) (sort_reverse k xs)"
proof -
  have "sorted (map k (sort_key k (rev xs)))" by simp
  then have "sorted_wrt (\<lambda>a b. k a \<le> k b) (sort_key k (rev xs))"
    by (simp add: sorted_map)
  then show ?thesis
    by (simp add: sort_reverse_def sorted_wrt_rev)
qed

lemma stable_sort_reverse:
  "filter (\<lambda>y. k y = c) (sort_reverse k xs) = filter (\<lambda>y. k y = c) xs"
  by (simp add: sort_reverse_def rev_filter [symmetric] sort_key_stable)

lemma least_key_last:
  fixes k :: "'a \<Rightarrow> 'b::order"
  assumes "sorted_wrt (\<lambda>a b. k a \<ge> k b) xs" and "\<And>x. m \<le> k x"
  shows "xs = filter (\<lambda>x. k x \<noteq> m) xs @ filter (\<lambda>x. k x = m) xs"
  using assms(1)
proof (induction xs)
  case Nil
  then show ?case by simp
next
  case (Cons x xs)
  show ?case
  proof (cases "k x = m")
    case True
    from Cons.prems have "\<forall>y\<in>set xs. k y \<le> k x" by simp
    with True assms(2) have "\<forall>y\<in>set xs. k y = m"
      by (auto intro!: order.antisym)
    then have "filter (\<lambda>x. k x \<noteq> m) xs = []" "filter (\<lambda>x. k x = m) xs = xs"
      by (simp_all add: filter_empty_conv filter_id_conv)
    with True show ?thesis by simp
  next
    case False
    with Cons show ?thesis by simp
  qed
qed

lemma str_in_Nil [simp]: "str_in [] t"
  by (cases t) simp_all

lemma slice_to_nonneg: "0 \<le> n \<Longrightarrow> slice_to n xs = take (nat n) xs"
  by (simp add: slice_to_def)

text \<open>
  C5. The listing sorts the records by creation time in descending order, a missing creation
  time counting as the empty string, so that those records come last (records with equal
  keys keep their order); then it keeps exactly the records whose lower-cased status
  contains the lower-cased filter, when one is given (an empty filter is none); and only
  then cuts the result to the limit. The statement holds whatever the table of
  \<^verbatim>\<open>str.lower()\<close> is.
\<close>

theorem list_pipeline_sorts_filters_then_cuts:
  fixes all_jobs :: "'a job_record_scheme list"
  shows
    "mset (sort_reverse created_key all_jobs) = mset all_jobs \<and>
     sorted_wrt (\<lambda>a b. created_key a \<ge> created_key b) (sort_reverse created_key all_jobs) \<and>
     (\<forall>c. filter (\<lambda>j. created_key j = c) (sort_reverse created_key all_jobs) =
          filter (\<lambda>j. created_key j = c) all_jobs) \<and>
     (\<forall>j::'a job_record_scheme. created_at j = None \<longrightarrow> created_key j = []) \<and>
     sort_reverse created_key all_jobs =
       filter (\<lambda>j. created_key j \<noteq> []) (sort_reverse created_key all_jobs) @
       filter (\<lambda>j. created_key j = []) (sort_reverse created_key all_jobs) \<and>
     list_pipeline str_lower None False args_limit all_jobs =
       slice_to args_limit (sort_reverse created_key all_jobs) \<and>
     list_pipeline str_lower (Some []) False args_limit all_jobs =
       slice_to args_limit (sort_reverse created_key all_jobs) \<and>
     (st \<noteq> [] \<longrightarrow>
        list_pipeline str_lower (Some st) False args_limit all_jobs =
          slice_to args_limit (filter (\<lambda>j. str_in (str_lower st) (str_lower (status j)))
                          (sort_reverse created_key all_jobs))) \<and>
     set (filter (\<lambda>j. str_in (str_lower st) (str_lower (status j)))
            (sort_reverse created_key all_jobs)) =
       {j \<in> set all_jobs. str_in (str_lower st) (str_lower (status j))} \<and>
     (0 \<le> args_limit \<and> st \<noteq> [] \<longrightarrow>
        list_pipeline str_lower (Some st) False args_limit all_jobs =
          take (nat args_limit) (filter (\<lambda>j. str_in (str_lower st) (str_lower (status j)))
                          (sort_reverse created_key all_jobs)))"
proof -
  have set_eq: "set (sort_reverse created_key all_jobs) = set all_jobs"
    by (simp add: sort_reverse_def)
  have least: "[] \<le> created_key x" for x :: "'a job_record_scheme"
    by simp
  have pipe: "st \<noteq> [] \<longrightarrow>
        list_pipeline str_lower (Some st) False args_limit all_jobs =
          slice_to args_limit (filter (\<lambda>j. str_in (str_lower st) (str_lower (status j)))
                          (sort_reverse created_key all_jobs))"
    by (simp add: list_pipeline_def)
  have cut: "0 \<le> args_limit \<and> st \<noteq> [] \<longrightarrow>
        list_pipeline str_lower (Some st) False args_limit all_jobs =
          take (nat args_limit) (filter (\<lambda>j. str_in (str_lower st) (str_lower (status j)))
                          (sort_reverse created_key all_jobs))"
    by (simp add: list_pipeline_def slice_to_nonneg)
  have empty: "list_pipeline str_lower (Some []) False args_limit all_jobs =
      slice_to args_limit (sort_reverse created_key all_jobs)"
    by (simp add: list_pipeline_def)
  have none: "list_pipeline str_lower None False args_limit all_jobs =
      slice_to args_limit (sort_reverse created_key all_jobs)"
    by (simp add: list_pipeline_def)
  have missing: "\<forall>j::'a job_record_scheme. created_at j = None \<longrightarrow> created_key j = []"
    by (simp add: created_key_def)
  have kept: "set (filter (\<lambda>j. str_in (str_lower st) (str_lower (status j)))
                (sort_reverse created_key all_jobs)) =
       {j \<in> set all_jobs. str_in (str_lower st) (str_lower (status j))}"
    by (auto simp: set_eq)
  have stable: "\<forall>c. filter (\<lambda>j. created_key j = c) (sort_reverse created_key all_jobs) =
          filter (\<lambda>j. created_key j = c) all_jobs"
    by (simp add: stable_sort_reverse)
  from mset_sort_reverse [of created_key all_jobs]
    sorted_sort_reverse [of created_key all_jobs] stable missing
    least_key_last [OF sorted_sort_reverse, of "[]" created_key all_jobs, OF least]
    none empty pipe kept cut
  show ?thesis by (intro conjI)
qed

lemma example_listing:
  "list_pipeline ascii_lower (Some ''running'') False 10 example_jobs =
     [\<lparr>job_id = ''job-4'', status = ''RUNNING'', created_at = Some ''2024-01-02T10:00''\<rparr>,
      \<lparr>job_id = ''job-1'', status = ''job_running'', created_at = Some ''2024-01-01T10:00''\<rparr>,
      \<lparr>job_id = ''job-3'', status = ''RUNNING'', created_at = None\<rparr>]"
  by code_simp

lemma example_sorting:
  "sort_reverse created_key example_jobs =
     [\<lparr>job_id = ''job-2'', status = ''job_succeeded'', created_at = Some ''2024-01-03T10:00''\<rparr>,
      \<lparr>job_id = ''job-4'', status = ''RUNNING'', created_at = Some ''2024-01-02T10:00''\<rparr>,
      \<lparr>job_id = ''job-1'', status = ''job_running'', created_at = Some ''2024-01-01T10:00''\<rparr>,
      \<lparr>job_id = ''job-3'', status = ''RUNNING'', created_at = None\<rparr>]"
  by code_simp

theorem list_pipeline_sorts_filters_then_cuts_witness:
  "created_at \<lparr>job_id = ''job-3'', status = ''RUNNING'', created_at = None\<rparr> = None \<and>
   created_key \<lparr>job_id = ''job-3'', status = ''RUNNING'', created_at = None\<rparr> = [] \<and>
   (0::int) \<le> 2 \<and> ''running'' \<noteq> [] \<and>
   list_pipeline ascii_lower (Some ''running'') False 2 example_jobs =
     [\<lparr>job_id = ''job-4'', status = ''RUNNING'', created_at = Some ''2024-01-02T10:00''\<rparr>,
      \<lparr>job_id = ''job-1'', status = ''job_running'', created_at = Some ''2024-01-01T10:00''\<rparr>] \<and>
   list_pipeline ascii_lower (Some ''running'') False 10 example_jobs =
     [\<lparr>job_id = ''job-4'', status = ''RUNNING'', created_at = Some ''2024-01-02T10:00''\<rparr>,
      \<lparr>job_id = ''job-1'', status = ''job_running'', created_at = Some ''2024-01-01T10:00''\<rparr>,
      \<lparr>job_id = ''job-3'', status = ''RUNNING'', created_at = None\<rparr>]"
proof -
  note t = list_pipeline_sorts_filters_then_cuts
             [where all_jobs = example_jobs and str_lower = ascii_lower and args_limit = 2
                and st = "''running''"]
  note missing = t [THEN conjunct2, THEN conjunct2, THEN conjunct2, THEN conjunct1, rule_format]
  note cut = t [THEN conjunct2, THEN conjunct2, THEN conjunct2, THEN conjunct2, THEN conjunct2,
                THEN conjunct2, THEN conjunct2, THEN conjunct2, THEN conjunct2, rule_format]
  have k: "created_key \<lparr>job_id = ''job-3'', status = ''RUNNING'', created_at = None\<rparr> = []"
    by (rule missing) simp
  have f: "filter (\<lambda>j. str_in (ascii_lower ''running'') (ascii_lower (status j)))
             (sort_reverse created_key example_jobs) =
     [\<lparr>job_id = ''job-4'', status = ''RUNNING'', created_at = Some ''2024-01-02T10:00''\<rparr>,
      \<lparr>job_id = ''job-1'', status = ''job_running'', created_at = Some ''2024-01-01T10:00''\<rparr>,
      \<lparr>job_id = ''job-3'', status = ''RUNNING'', created_at = None\<rparr>]"
    unfolding example_sorting by code_simp
  have "list_pipeline ascii_lower (Some ''running'') False 2 example_jobs =
     [\<lparr>job_id = ''job-4'', status = ''RUNNING'', created_at = Some ''2024-01-02T10:00''\<rparr>,
      \<lparr>job_id = ''job-1'', status = ''job_running'', created_at = Some ''2024-01-01T10:00''\<rparr>]"
    using cut unfolding f by simp
  with k example_listing show ?thesis by simp
qed

section \<open>Identifiers and names on the command line\<close>

lemma py_getitem_JStr_id_of:
  "py_getitem p ''id'' = Inr (JStr i) \<Longrightarrow> id_of p = Some i"
  by (cases p) (auto simp: id_of_def split: option.splits)

lemma list_cookie_prefix_result:
  assumes "startswith tok ''ws-''" and "cmd_list_cookie_resolve str_lower s tok = Inr r"
  shows "\<exists>n. r = Some (tok, n)"
  using assms
  by (auto simp: cmd_list_cookie_resolve_def bind_exn_eq_Inr split: if_splits)

lemma list_cookie_prefix_total:
  assumes "startswith tok ''ws-''" and "load_all_resources s = Inr (JObj cache)"
    and "\<forall>e. map_of cache tok = Some e \<longrightarrow> is_dict e"
  shows "\<exists>n. cmd_list_cookie_resolve str_lower s tok = Inr (Some (tok, n))"
proof (cases "map_of cache tok")
  case None
  with assms show ?thesis
    by (simp add: cmd_list_cookie_resolve_def get_workspace_resources_def)
next
  case (Some e)
  with assms(3) obtain f where "e = JObj f"
    by (auto simp: is_dict_def split: json.splits)
  with assms(1,2) Some show ?thesis
    by (simp add: cmd_list_cookie_resolve_def get_workspace_resources_def)
qed

lemma list_cookie_name_result:
  assumes "\<not> startswith tok ''ws-''" and "cmd_list_cookie_resolve str_lower s tok = Inr (Some (w, n))"
  shows "find_workspace_by_name str_lower s tok = Inr (Some w)"
  using assms
  by (auto simp: cmd_list_cookie_resolve_def bind_exn_eq_Inr split: if_splits option.splits)

lemma select_group_name_result:
  assumes "\<not> startswith g ''lcg-''"
    and "cmd_avail_select_group str_lower s w groups g = Inr (Some sel)"
  shows "\<exists>found i. find_resource_by_name str_lower s w ''compute_groups'' g = Inr (Some found) \<and>
           id_of found = Some i \<and> sel = JObj [(i, found)]"
proof -
  from assms obtain r where
    r: "find_resource_by_name str_lower s w ''compute_groups'' g = Inr r"
    and body: "(case r of
            None \<Rightarrow> Inr None
          | Some found \<Rightarrow>
              if \<not> truthy found then Inr None
              else
                bind_exn (py_getitem found ''id'') (\<lambda>k.
                  case k of
                    JStr i \<Rightarrow> Inr (Some (JObj [(i, found)]))
                  | _ \<Rightarrow> Inl TypeError)) = Inr (Some sel)"
    by (auto simp: cmd_avail_select_group_def bind_exn_eq_Inr)
  from body obtain found where found: "r = Some found"
    by (cases r) auto
  with body obtain k where
    k: "py_getitem found ''id'' = Inr k"
    and sel: "(case k of JStr i \<Rightarrow> Inr (Some (JObj [(i, found)])) | _ \<Rightarrow> Inl TypeError)
                = Inr (Some sel)"
    by (auto simp: bind_exn_eq_Inr split: if_splits)
  from sel obtain i where i: "k = JStr i" "sel = JObj [(i, found)]"
    by (cases k) auto
  from k i(1) have "id_of found = Some i" by (simp add: py_getitem_JStr_id_of)
  with r found i(2) show ?thesis by blast
qed

text \<open>
  C8. A workspace token that starts with \<open>ws-\<close> is itself the workspace id: the result
  does not depend on the cached aliases, and the command never reports an unknown name.
  A compute-group filter that starts with \<open>lcg-\<close> is looked up as a key of the cached
  groups only. Tokens without the prefix are resolved by name, and only those.
\<close>

theorem id_prefix_skips_name_resolution:
  "(startswith tok ''ws-'' \<longrightarrow>
      cmd_avail_resolve str_lower s tok = Inr (Some [tok]) \<and>
      (\<forall>r. cmd_list_cookie_resolve str_lower s tok = Inr r \<longrightarrow> (\<exists>n. r = Some (tok, n))) \<and>
      (\<forall>cache. load_all_resources s = Inr (JObj cache) \<and>
               (\<forall>e. map_of cache tok = Some e \<longrightarrow> is_dict e) \<longrightarrow>
               (\<exists>n. cmd_list_cookie_resolve str_lower s tok = Inr (Some (tok, n))))) \<and>
   (\<not> startswith tok ''ws-'' \<longrightarrow>
      cmd_avail_resolve str_lower s tok =
        bind_exn (find_workspace_by_name str_lower s tok) (\<lambda>r.
          Inr (case r of None \<Rightarrow> None | Some w \<Rightarrow> if w = [] then None else Some [w])) \<and>
      (find_workspace_by_name str_lower s tok = Inr None \<longrightarrow> cmd_list_cookie_resolve str_lower s tok = Inr None) \<and>
      (\<forall>w n. cmd_list_cookie_resolve str_lower s tok = Inr (Some (w, n)) \<longrightarrow>
             find_workspace_by_name str_lower s tok = Inr (Some w))) \<and>
   (startswith g ''lcg-'' \<longrightarrow>
      cmd_avail_select_group str_lower s workspace_id (JObj groups) g =
        Inr (case map_of groups g of None \<Rightarrow> None | Some grp \<Rightarrow> Some (JObj [(g, grp)]))) \<and>
   (\<not> startswith g ''lcg-'' \<longrightarrow>
      (find_resource_by_name str_lower s workspace_id ''compute_groups'' g = Inr None \<longrightarrow>
         cmd_avail_select_group str_lower s workspace_id (JObj groups) g = Inr None) \<and>
      (\<forall>sel. cmd_avail_select_group str_lower s workspace_id (JObj groups) g = Inr (Some sel) \<longrightarrow>
         (\<exists>found i. find_resource_by_name str_lower s workspace_id ''compute_groups'' g = Inr (Some found) \<and>
            id_of found = Some i \<and> sel = JObj [(i, found)])))"
proof (intro conjI impI allI)
  assume "startswith tok ''ws-''"
  then show "cmd_avail_resolve str_lower s tok = Inr (Some [tok])"
    by (simp add: cmd_avail_resolve_def)
next
  fix r assume "startswith tok ''ws-''" "cmd_list_cookie_resolve str_lower s tok = Inr r"
  then show "\<exists>n. r = Some (tok, n)" by (rule list_cookie_prefix_result)
next
  fix cache
  assume "startswith tok ''ws-''"
    "load_all_resources s = Inr (JObj cache) \<and> (\<forall>e. map_of cache tok = Some e \<longrightarrow> is_dict e)"
  then show "\<exists>n. cmd_list_cookie_resolve str_lower s tok = Inr (Some (tok, n))"
    using list_cookie_prefix_total by blast
next
  assume "\<not> startswith tok ''ws-''"
  then show "cmd_avail_resolve str_lower s tok =
        bind_exn (find_workspace_by_name str_lower s tok) (\<lambda>r.
          Inr (case r of None \<Rightarrow> None | Some w \<Rightarrow> if w = [] then None else Some [w]))"
    by (cases "find_workspace_by_name str_lower s tok")
       (simp_all add: cmd_avail_resolve_def split: option.splits)
next
  assume "\<not> startswith tok ''ws-''" "find_workspace_by_name str_lower s tok = Inr None"
  then show "cmd_list_cookie_resolve str_lower s tok = Inr None"
    by (simp add: cmd_list_cookie_resolve_def)
next
  fix w n
  assume "\<not> startswith tok ''ws-''" "cmd_list_cookie_resolve str_lower s tok = Inr (Some (w, n))"
  then show "find_workspace_by_name str_lower s tok = Inr (Some w)" by (rule list_cookie_name_result)
next
  assume "startswith g ''lcg-''"
  then show "cmd_avail_select_group str_lower s workspace_id (JObj groups) g =
        Inr (case map_of groups g of None \<Rightarrow> None | Some grp \<Rightarrow> Some (JObj [(g, grp)]))"
    by (simp add: cmd_avail_select_group_def split: option.splits)
next
  assume "\<not> startswith g ''lcg-''"
    "find_resource_by_name str_lower s workspace_id ''compute_groups'' g = Inr None"
  then show "cmd_avail_select_group str_lower s workspace_id (JObj groups) g = Inr None"
    by (simp add: cmd_avail_select_group_def)
next
  fix sel
  assume "\<not> startswith g ''lcg-''"
    "cmd_avail_select_group str_lower s workspace_id (JObj groups) g = Inr (Some sel)"
  then show "\<exists>found i. find_resource_by_name str_lower s workspace_id ''compute_groups'' g = Inr (Some found) \<and>
            id_of found = Some i \<and> sel = JObj [(i, found)]"
    by (rule select_group_name_result)
qed

text \<open>
  In the example the alias of \<open>ws-1\<close> is the string \<open>ws-2\<close>: resolution by name
  would answer \<open>ws-1\<close>, and the token \<open>ws-2\<close> is taken as the id it spells.
\<close>

lemma alias_clash_lookup:
  "find_workspace_by_name ascii_lower alias_clash_fs ''ws-2'' = Inr (Some ''ws-1'')"
  by (simp add: find_workspace_by_name_def load_all_resources_cases alias_clash_fs_def
        ws_entry_def)

theorem id_prefix_skips_name_resolution_witness:
  "startswith ''ws-2'' ''ws-'' \<and>
   find_workspace_by_name ascii_lower alias_clash_fs ''ws-2'' = Inr (Some ''ws-1'') \<and>
   cmd_avail_resolve ascii_lower alias_clash_fs ''ws-2'' = Inr (Some [''ws-2'']) \<and>
   startswith ''lcg-1'' ''lcg-'' \<and>
   cmd_avail_select_group ascii_lower example_fs ''ws-1''
       (JObj [(''lcg-2'', group_h100_spot), (''lcg-1'', group_h100)]) ''lcg-1'' =
     Inr (Some (JObj [(''lcg-1'', group_h100)])) \<and>
   \<not> startswith ''prod'' ''ws-'' \<and>
   cmd_avail_resolve ascii_lower alias_clash_fs ''prod'' = Inr (Some [''ws-2''])"
proof -
  have p: "startswith ''ws-2'' ''ws-''" "startswith ''lcg-1'' ''lcg-''"
    "\<not> startswith ''prod'' ''ws-''"
    by (simp_all add: startswith_def)
  note t = id_prefix_skips_name_resolution
  have 1: "cmd_avail_resolve ascii_lower alias_clash_fs ''ws-2'' = Inr (Some [''ws-2''])"
    using t [where tok = "''ws-2''" and s = alias_clash_fs and str_lower = ascii_lower,
             THEN conjunct1, THEN mp, OF p(1)]
    by simp
  have 2: "cmd_avail_select_group ascii_lower example_fs ''ws-1''
       (JObj [(''lcg-2'', group_h100_spot), (''lcg-1'', group_h100)]) ''lcg-1'' =
     Inr (Some (JObj [(''lcg-1'', group_h100)]))"
    using t [where g = "''lcg-1''" and s = example_fs and workspace_id = "''ws-1''"
               and str_lower = ascii_lower
               and groups = "[(''lcg-2'', group_h100_spot), (''lcg-1'', group_h100)]",
             THEN conjunct2, THEN conjunct2, THEN conjunct1, THEN mp, OF p(2)]
    by simp
  have l: "find_workspace_by_name ascii_lower alias_clash_fs ''prod'' = Inr (Some ''ws-2'')"
    by (simp add: find_workspace_by_name_def load_all_resources_cases alias_clash_fs_def
          ws_entry_def)
  have 3: "cmd_avail_resolve ascii_lower alias_clash_fs ''prod'' = Inr (Some [''ws-2''])"
    using t [where tok = "''prod''" and s = alias_clash_fs and str_lower = ascii_lower,
             THEN conjunct2, THEN conjunct1, THEN mp, OF p(3)]
    by (simp add: l)
  from p 1 2 3 alias_clash_lookup show ?thesis by simp
qed

end
